theory Spec2Isabelle
  imports Complex_Main "HOL-Library.Log_Nat"
begin

section \<open>JavaScript values used by the model\<close>

text \<open>
  Strings are lists of 8-bit characters: the model covers source text whose UTF-16 code
  units are below 256. Numbers are IEEE doubles in the source and exact reals here:
  rounding and overflow of doubles are not modelled. A number that is NaN or an infinity
  in the source has no real value; the functions below return \<open>None\<close> for it.
\<close>

type_synonym jsnum = "real option"

text \<open>
  A property read \<open>obj[key]\<close> on an object literal finds the object's own entries first and
  then the members every object inherits from \<open>Object.prototype\<close>.
\<close>

datatype 'a js_prop = Own 'a | Inherited | Missing

definition objectPrototypeKeys :: "string list" where
  "objectPrototypeKeys =
    [''constructor'', ''__defineGetter__'', ''__defineSetter__'', ''hasOwnProperty'',
     ''__lookupGetter__'', ''__lookupSetter__'', ''isPrototypeOf'', ''propertyIsEnumerable'',
     ''toString'', ''valueOf'', ''__proto__'', ''toLocaleString'']"

definition js_get :: "(string \<times> 'a) list \<Rightarrow> string \<Rightarrow> 'a js_prop" where
  "js_get obj k =
    (case map_of obj k of
       Some v \<Rightarrow> Own v
     | None \<Rightarrow> if k \<in> set objectPrototypeKeys then Inherited else Missing)"

text \<open>
  What a call does: it throws an \<open>Error\<close> with a message, or it returns a value. \<open>Unmodelled\<close>
  marks the configurations this embedding does not follow further: the source goes on there
  with a NaN or an infinity, or with a built-in object found through \<open>Object.prototype\<close>.
\<close>

datatype 'a outcome = Threw string | Returned 'a | Unmodelled

text \<open>\<open>Math.log2\<close> and \<open>Math.sqrt\<close>: NaN or \<open>-Infinity\<close> outside the domain.\<close>

definition js_log2 :: "real \<Rightarrow> jsnum" where
  "js_log2 x = (if 0 < x then Some (log 2 x) else None)"

definition js_sqrt :: "real \<Rightarrow> jsnum" where
  "js_sqrt x = (if 0 \<le> x then Some (sqrt x) else None)"

text \<open>\<open>parseFloat(x.toFixed(f))\<close>: the nearest multiple of \<open>10^-f\<close>, ties away from zero.\<close>

definition toFixedNum :: "nat \<Rightarrow> real \<Rightarrow> real" where
  "toFixedNum f x =
    (if x < 0 then - (of_int \<lfloor>(- x) * 10 ^ f + 1 / 2\<rfloor> / 10 ^ f)
     else of_int \<lfloor>x * 10 ^ f + 1 / 2\<rfloor> / 10 ^ f)"


section \<open>fpgaCalculations.js: the device and architecture catalogs\<close>

record device_spec =
  spec_family :: string
  spec_lut_delay :: real
  spec_ff_delay :: real
  spec_carry_delay :: real
  spec_routing_delay_factor :: real
  spec_power_base :: real
  spec_power_per_lut :: real
  spec_power_per_ff :: real
  spec_max_frequency :: real
  spec_temperature_factor :: real
  spec_voltage_factor :: real

definition deviceSpecs :: "(string \<times> device_spec) list" where
  "deviceSpecs =
    [(''Artix-7'', \<lparr>spec_family = ''Xilinx 7-Series'', spec_lut_delay = 0.124,
        spec_ff_delay = 0.058, spec_carry_delay = 0.035, spec_routing_delay_factor = 0.6,
        spec_power_base = 150, spec_power_per_lut = 0.05, spec_power_per_ff = 0.02,
        spec_max_frequency = 450, spec_temperature_factor = 1.1, spec_voltage_factor = 1.8\<rparr>),
     (''Kintex-7'', \<lparr>spec_family = ''Xilinx 7-Series'', spec_lut_delay = 0.112,
        spec_ff_delay = 0.052, spec_carry_delay = 0.032, spec_routing_delay_factor = 0.55,
        spec_power_base = 800, spec_power_per_lut = 0.045, spec_power_per_ff = 0.018,
        spec_max_frequency = 500, spec_temperature_factor = 1.1, spec_voltage_factor = 1.8\<rparr>),
     (''Zynq-7020'', \<lparr>spec_family = ''Xilinx Zynq'', spec_lut_delay = 0.118,
        spec_ff_delay = 0.055, spec_carry_delay = 0.033, spec_routing_delay_factor = 0.58,
        spec_power_base = 400, spec_power_per_lut = 0.048, spec_power_per_ff = 0.019,
        spec_max_frequency = 450, spec_temperature_factor = 1.1, spec_voltage_factor = 1.8\<rparr>),
     (''Cyclone-V'', \<lparr>spec_family = ''Intel/Altera'', spec_lut_delay = 0.134,
        spec_ff_delay = 0.062, spec_carry_delay = 0.038, spec_routing_delay_factor = 0.65,
        spec_power_base = 200, spec_power_per_lut = 0.052, spec_power_per_ff = 0.021,
        spec_max_frequency = 400, spec_temperature_factor = 1.12, spec_voltage_factor = 1.9\<rparr>),
     (''Stratix-10'', \<lparr>spec_family = ''Intel/Altera'', spec_lut_delay = 0.089,
        spec_ff_delay = 0.042, spec_carry_delay = 0.025, spec_routing_delay_factor = 0.45,
        spec_power_base = 2000, spec_power_per_lut = 0.035, spec_power_per_ff = 0.015,
        spec_max_frequency = 600, spec_temperature_factor = 1.08, spec_voltage_factor = 1.7\<rparr>)]"

text \<open>
  A pattern's formulas are JavaScript functions of one parameter \<open>(width)\<close> or of two
  \<open>(depth, width)\<close>. The model gives every formula both argument positions; a position the
  caller leaves out is \<open>undefined\<close> in the source and \<open>None\<close> here, and arithmetic on it
  is NaN.
\<close>

record design_pattern =
  delay_formula :: "jsnum \<Rightarrow> jsnum \<Rightarrow> jsnum"
  lut_usage :: "jsnum \<Rightarrow> jsnum \<Rightarrow> jsnum"
  ff_usage :: "jsnum \<Rightarrow> jsnum \<Rightarrow> jsnum"
  description :: string

definition on1 :: "(real \<Rightarrow> jsnum) \<Rightarrow> jsnum \<Rightarrow> jsnum \<Rightarrow> jsnum" where
  "on1 f a b = Option.bind a f"

definition on2 :: "(real \<Rightarrow> real \<Rightarrow> jsnum) \<Rightarrow> jsnum \<Rightarrow> jsnum \<Rightarrow> jsnum" where
  "on2 f a b = Option.bind a (\<lambda>x. Option.bind b (f x))"

definition designPatterns :: "(string \<times> (string \<times> design_pattern) list) list" where
  "designPatterns =
    [(''adder'',
       [(''ripple_carry'', \<lparr>
           delay_formula = on1 (\<lambda>width. Some (width * 0.125)),
           lut_usage = on1 (\<lambda>width. Some width),
           ff_usage = on1 (\<lambda>width. Some (width + 1)),
           description = ''Linear delay with bit width''\<rparr>),
        (''carry_lookahead'', \<lparr>
           delay_formula = on1 (\<lambda>width. map_option (\<lambda>l. l * 0.3 + 0.5) (js_log2 width)),
           lut_usage = on1 (\<lambda>width. Some (width * 1.5)),
           ff_usage = on1 (\<lambda>width. Some (width + 1)),
           description = ''Logarithmic delay, more LUTs''\<rparr>),
        (''carry_select'', \<lparr>
           delay_formula = on1 (\<lambda>width. map_option (\<lambda>s. s * 0.4 + 0.8) (js_sqrt width)),
           lut_usage = on1 (\<lambda>width. Some (width * 2.2)),
           ff_usage = on1 (\<lambda>width. Some (width + 1)),
           description = ''Square root delay scaling''\<rparr>)]),
     (''multiplier'',
       [(''array'', \<lparr>
           delay_formula = on1 (\<lambda>width. Some (width * 0.2)),
           lut_usage = on1 (\<lambda>width. Some (width * width * 0.8)),
           ff_usage = on1 (\<lambda>width. Some (width * 2)),
           description = ''Linear delay, quadratic area''\<rparr>),
        (''booth'', \<lparr>
           delay_formula = on1 (\<lambda>width. Some (width * 0.15 + 1.0)),
           lut_usage = on1 (\<lambda>width. Some (width * width * 0.6)),
           ff_usage = on1 (\<lambda>width. Some (width * 1.5)),
           description = ''Optimized for signed multiplication''\<rparr>),
        (''wallace_tree'', \<lparr>
           delay_formula = on1 (\<lambda>width. map_option (\<lambda>l. l * 1.2 + 2.5) (js_log2 width)),
           lut_usage = on1 (\<lambda>width. Some (width * width * 1.1)),
           ff_usage = on1 (\<lambda>width. Some (width * 2.5)),
           description = ''Fast but resource intensive''\<rparr>)]),
     (''memory'',
       [(''distributed'', \<lparr>
           delay_formula = on1 (\<lambda>depth. map_option (\<lambda>l. 0.8 + l * 0.1) (js_log2 depth)),
           lut_usage = on2 (\<lambda>depth width. Some (depth * width / 32)),
           ff_usage = (\<lambda>depth width. Some 0),
           description = ''Uses LUT RAM''\<rparr>),
        (''block_ram'', \<lparr>
           delay_formula = (\<lambda>depth width. Some 2.5),
           lut_usage = (\<lambda>depth width. map_option (\<lambda>w. of_int \<lceil>w / 8\<rceil> * 2) width),
           ff_usage = (\<lambda>depth width. map_option (\<lambda>w. w * 2) width),
           description = ''Dedicated BRAM blocks''\<rparr>)])]"

text \<open>
  \<open>this.designPatterns[component] && this.designPatterns[component][architecture]\<close>:
  \<open>Missing\<close> when the conjunction is falsy, \<open>Inherited\<close> when one of the two reads lands on
  a member of \<open>Object.prototype\<close>.
\<close>

definition findPattern :: "string \<Rightarrow> string \<Rightarrow> design_pattern js_prop" where
  "findPattern component architecture =
    (case js_get designPatterns component of
       Missing \<Rightarrow> Missing
     | Inherited \<Rightarrow> Inherited
     | Own archs \<Rightarrow> js_get archs architecture)"


section \<open>fpgaCalculations.js: the estimators\<close>

text \<open>
  The argument object. A field that the caller leaves out is \<open>None\<close>; the destructuring
  defaults of each estimator fill it in. Widths, depths, instance counts, logic levels and
  speed grades are integers.
\<close>

record utilization =
  util_luts :: "real option"
  util_ffs :: "real option"
  util_ios :: "real option"

record design_config =
  cfg_device :: "string option"
  cfg_component :: "string option"
  cfg_architecture :: "string option"
  cfg_width :: "int option"
  cfg_depth :: "int option"
  cfg_logic_levels :: "int option"
  cfg_fanout :: "real option"
  cfg_temperature :: "real option"
  cfg_voltage :: "real option"
  cfg_speed_grade :: "int option"
  cfg_instances :: "int option"
  cfg_frequency :: "real option"
  cfg_toggle_rate :: "real option"
  cfg_utilization :: "utilization option"

definition emptyConfig :: design_config where
  "emptyConfig = \<lparr>cfg_device = None, cfg_component = None, cfg_architecture = None, cfg_width = None,
     cfg_depth = None, cfg_logic_levels = None, cfg_fanout = None, cfg_temperature = None, cfg_voltage = None,
     cfg_speed_grade = None, cfg_instances = None, cfg_frequency = None, cfg_toggle_rate = None,
     cfg_utilization = None\<rparr>"

definition dflt :: "'a \<Rightarrow> 'a option \<Rightarrow> 'a" where
  "dflt d v = (case v of None \<Rightarrow> d | Some x \<Rightarrow> x)"

text \<open>Truthiness of \<open>depth\<close> and \<open>logic_levels\<close>: \<open>null\<close>, \<open>undefined\<close> and \<open>0\<close> are falsy.\<close>

definition truthy :: "int option \<Rightarrow> bool" where
  "truthy v = (case v of None \<Rightarrow> False | Some x \<Rightarrow> x \<noteq> 0)"

definition getSpeedGradeFactor :: "int \<Rightarrow> real" where
  "getSpeedGradeFactor speedGrade =
    (if speedGrade = - 1 then 1.0
     else if speedGrade = - 2 then 0.85
     else if speedGrade = - 3 then 0.75
     else 1.0)"

record critical_path =
  cp_levels :: int
  cp_fanout :: real
  cp_bottleneck :: string

record timing_result =
  logic_delay :: real
  routing_delay :: real
  total_delay :: real
  max_frequency :: real
  setup_slack :: real
  hold_slack :: real
  critical_path :: critical_path

text \<open>The local variables of \<open>calculateTiming\<close>, each as the source computes it.\<close>

definition timing_levels :: "design_config \<Rightarrow> int option" where
  "timing_levels cfg =
    (if truthy (cfg_logic_levels cfg) then cfg_logic_levels cfg
     else map_option ceiling (js_log2 (of_int (dflt 8 (cfg_width cfg)))))"

definition timing_logicDelay :: "device_spec \<Rightarrow> design_config \<Rightarrow> jsnum outcome" where
  "timing_logicDelay deviceSpec cfg =
    (let component = dflt ''adder'' (cfg_component cfg);
         architecture = dflt ''ripple_carry'' (cfg_architecture cfg);
         width = dflt 8 (cfg_width cfg)
     in case findPattern component architecture of
          Own pattern \<Rightarrow>
            if component = ''memory'' \<and> truthy (cfg_depth cfg)
            then Returned (delay_formula pattern (map_option of_int (cfg_depth cfg)) (Some (of_int width)))
            else Returned (delay_formula pattern (Some (of_int width)) None)
        | Missing \<Rightarrow>
            Returned (map_option (\<lambda>levels. of_int levels * spec_lut_delay deviceSpec)
                        (timing_levels cfg))
        | Inherited \<Rightarrow> Unmodelled)"

definition timing_routingDelay :: "device_spec \<Rightarrow> design_config \<Rightarrow> real \<Rightarrow> jsnum" where
  "timing_routingDelay deviceSpec cfg logicDelay =
    map_option (\<lambda>s. logicDelay * spec_routing_delay_factor deviceSpec * s)
      (js_sqrt (dflt 4 (cfg_fanout cfg)))"

definition timing_tempFactor :: "device_spec \<Rightarrow> real \<Rightarrow> real" where
  "timing_tempFactor deviceSpec temperature =
    spec_temperature_factor deviceSpec powr ((temperature - 25) / 10)"

definition timing_totalDelay :: "device_spec \<Rightarrow> design_config \<Rightarrow> real \<Rightarrow> real \<Rightarrow> real" where
  "timing_totalDelay deviceSpec cfg logicDelay routingDelay =
    (logicDelay + routingDelay) * timing_tempFactor deviceSpec (dflt 25 (cfg_temperature cfg))
      * getSpeedGradeFactor (dflt (- 1) (cfg_speed_grade cfg))"

text \<open>\<open>Math.min(1000 / totalDelay, max_frequency)\<close>; \<open>1000 / 0\<close> is \<open>Infinity\<close>.\<close>

definition timing_maxFrequency :: "device_spec \<Rightarrow> real \<Rightarrow> real" where
  "timing_maxFrequency deviceSpec totalDelay =
    (if totalDelay = 0 then spec_max_frequency deviceSpec
     else min (1000 / totalDelay) (spec_max_frequency deviceSpec))"

definition calculateTiming :: "design_config \<Rightarrow> timing_result outcome" where
  "calculateTiming cfg =
    (let device = dflt ''Artix-7'' (cfg_device cfg) in
     case js_get deviceSpecs device of
       Missing \<Rightarrow> Threw (''Timing calculation failed: '' @ ''Unsupported device: '' @ device)
     | Inherited \<Rightarrow> Unmodelled
     | Own deviceSpec \<Rightarrow>
        (case timing_logicDelay deviceSpec cfg of
           Returned (Some logicDelay) \<Rightarrow>
            (case (timing_routingDelay deviceSpec cfg logicDelay, timing_levels cfg) of
               (Some routingDelay, Some levels) \<Rightarrow>
                 (let totalDelay = timing_totalDelay deviceSpec cfg logicDelay routingDelay;
                      maxFrequency = timing_maxFrequency deviceSpec totalDelay;
                      targetPeriod = 10.0;
                      setupSlack = targetPeriod - totalDelay;
                      holdSlack = 0.5
                  in Returned \<lparr>
                       logic_delay = toFixedNum 3 logicDelay,
                       routing_delay = toFixedNum 3 routingDelay,
                       total_delay = toFixedNum 3 totalDelay,
                       max_frequency = toFixedNum 1 maxFrequency,
                       setup_slack = toFixedNum 3 setupSlack,
                       hold_slack = toFixedNum 3 holdSlack,
                       critical_path = \<lparr>
                         cp_levels = levels,
                         cp_fanout = dflt 4 (cfg_fanout cfg),
                         cp_bottleneck = (if logicDelay > routingDelay then ''logic'' else ''routing'')\<rparr>\<rparr>)
             | _ \<Rightarrow> Unmodelled)
         | _ \<Rightarrow> Unmodelled))"

record resource_result =
  res_luts :: int
  res_ffs :: int
  res_brams :: int
  res_dsps :: int
  res_ios :: int
  res_total_equivalent_luts :: int

text \<open>
  The four usage counters of \<open>calculateResources\<close> before the scaling by \<open>instances\<close>:
  \<open>(lutUsage, ffUsage, bramUsage, dspUsage)\<close>.
\<close>

definition resource_usage :: "design_config \<Rightarrow> (jsnum \<times> jsnum \<times> real \<times> real) outcome" where
  "resource_usage cfg =
    (let component = dflt ''adder'' (cfg_component cfg);
         architecture = dflt ''ripple_carry'' (cfg_architecture cfg);
         width = dflt 8 (cfg_width cfg)
     in case findPattern component architecture of
          Own pattern \<Rightarrow>
            (let (lutUsage, ffUsage, bramUsage) =
                   (if component = ''memory'' \<and> truthy (cfg_depth cfg)
                    then (lut_usage pattern (map_option of_int (cfg_depth cfg)) (Some (of_int width)),
                          ff_usage pattern (map_option of_int (cfg_depth cfg)) (Some (of_int width)),
                          if architecture = ''block_ram''
                          then of_int \<lceil>(of_int (dflt 0 (cfg_depth cfg)) * of_int width) / (512 * 36 :: real)\<rceil>
                          else 0)
                    else (lut_usage pattern (Some (of_int width)) None,
                          ff_usage pattern (Some (of_int width)) None,
                          0))
             in if component = ''multiplier'' \<and> width \<ge> 8
                then Returned (map_option (\<lambda>l. l * 0.3) lutUsage, ffUsage, bramUsage,
                               of_int \<lceil>of_int width / (18 :: real)\<rceil>)
                else Returned (lutUsage, ffUsage, bramUsage, 0))
        | Missing \<Rightarrow> Returned (Some (of_int width * 2), Some (of_int width), 0, 0)
        | Inherited \<Rightarrow> Unmodelled)"

definition calculateResources :: "design_config \<Rightarrow> resource_result outcome" where
  "calculateResources cfg =
    (let width = dflt 8 (cfg_width cfg);
         instances = dflt 1 (cfg_instances cfg)
     in case resource_usage cfg of
          Returned (Some lutUsage0, Some ffUsage0, bramUsage0, dspUsage0) \<Rightarrow>
            (let lutUsage = lutUsage0 * of_int instances;
                 ffUsage = ffUsage0 * of_int instances;
                 bramUsage = bramUsage0 * of_int instances;
                 dspUsage = dspUsage0 * of_int instances;
                 ioUsage = (of_int width * 2) + (3 :: real)
             in Returned \<lparr>
                  res_luts = \<lceil>lutUsage\<rceil>,
                  res_ffs = \<lceil>ffUsage\<rceil>,
                  res_brams = \<lceil>bramUsage\<rceil>,
                  res_dsps = \<lceil>dspUsage\<rceil>,
                  res_ios = \<lceil>ioUsage\<rceil>,
                  res_total_equivalent_luts =
                    \<lceil>lutUsage + ffUsage * 0.5 + bramUsage * 10 + dspUsage * 5\<rceil>\<rparr>)
        | _ \<Rightarrow> Unmodelled)"

record power_breakdown =
  logic_power :: real
  ff_power :: real
  clock_power :: real
  io_power :: real

record power_result =
  static_power :: real
  dynamic_power :: real
  total_power :: real
  breakdown :: power_breakdown
  efficiency :: real
  thermal_design_power :: real

text \<open>\<open>x || 0\<close> on a number: \<open>undefined\<close> and \<open>0\<close> give \<open>0\<close>.\<close>

definition orZero :: "real option \<Rightarrow> real" where
  "orZero v = (case v of None \<Rightarrow> 0 | Some x \<Rightarrow> x)"

definition calculatePower :: "design_config \<Rightarrow> power_result outcome" where
  "calculatePower cfg =
    (let device = dflt ''Artix-7'' (cfg_device cfg);
         frequency = dflt 100 (cfg_frequency cfg);
         toggle_rate = dflt 0.25 (cfg_toggle_rate cfg);
         voltage = dflt 1.0 (cfg_voltage cfg);
         temperature = dflt 25 (cfg_temperature cfg);
         utilization = dflt \<lparr>util_luts = None, util_ffs = None, util_ios = None\<rparr> (cfg_utilization cfg)
     in case js_get deviceSpecs device of
       Missing \<Rightarrow> Threw (''Power calculation failed: '' @ ''Unsupported device: '' @ device)
     | Inherited \<Rightarrow> Unmodelled
     | Own deviceSpec \<Rightarrow>
        (let resources = orZero (util_luts utilization);
             ffs = orZero (util_ffs utilization);
             tempFactor = spec_temperature_factor deviceSpec powr ((temperature - 25) / 10);
             voltageFactor = voltage powr spec_voltage_factor deviceSpec;
             staticPower = spec_power_base deviceSpec * tempFactor * voltageFactor;
             lutSwitchingPower = resources * spec_power_per_lut deviceSpec * frequency * toggle_rate;
             ffSwitchingPower = ffs * spec_power_per_ff deviceSpec * frequency * toggle_rate;
             clockPower = frequency * 0.1;
             ioPower = orZero (util_ios utilization) * 0.5;
             dynamicPower = lutSwitchingPower + ffSwitchingPower + clockPower + ioPower;
             totalPower = staticPower + dynamicPower
         in if voltage < 0 \<or> totalPower = 0 then Unmodelled
            else Returned \<lparr>
                   static_power = toFixedNum 2 staticPower,
                   dynamic_power = toFixedNum 2 dynamicPower,
                   total_power = toFixedNum 2 totalPower,
                   breakdown = \<lparr>
                     logic_power = toFixedNum 2 lutSwitchingPower,
                     ff_power = toFixedNum 2 ffSwitchingPower,
                     clock_power = toFixedNum 2 clockPower,
                     io_power = toFixedNum 2 ioPower\<rparr>,
                   efficiency = toFixedNum 2 (frequency / totalPower),
                   thermal_design_power = toFixedNum 2 (totalPower * 1.3)\<rparr>))"

text \<open>The configuration of the ripple-carry adder on Artix-7, every other field left out.\<close>

definition rippleCarryOnArtix7 :: "int \<Rightarrow> design_config" where
  "rippleCarryOnArtix7 w = emptyConfig\<lparr>cfg_device := Some ''Artix-7'',
     cfg_component := Some ''adder'', cfg_architecture := Some ''ripple_carry'',
     cfg_width := Some w\<rparr>"


section \<open>JavaScript strings\<close>

text \<open>\<open>\s\<close> and \<open>trim\<close>: the white space and line terminators among the characters below 256.\<close>

definition isSpace :: "char \<Rightarrow> bool" where
  "isSpace c = (c \<in> set [CHR '' '', CHR 0x09, CHR 0x0A, CHR 0x0B, CHR 0x0C, CHR 0x0D, CHR 0xA0])"

definition isDigit :: "char \<Rightarrow> bool" where
  "isDigit c = (c \<in> set ''0123456789'')"

definition isWord :: "char \<Rightarrow> bool" where
  "isWord c = (c \<in> set ''abcdefghijklmnopqrstuvwxyzABCDEFGHIJKLMNOPQRSTUVWXYZ0123456789_'')"

definition isLineTerminator :: "char \<Rightarrow> bool" where
  "isLineTerminator c = (c = CHR 0x0A \<or> c = CHR 0x0D)"

definition trim :: "string \<Rightarrow> string" where
  "trim s = rev (dropWhile isSpace (rev (dropWhile isSpace s)))"

fun startsWith :: "string \<Rightarrow> string \<Rightarrow> bool" where
  "startsWith s [] = True"
| "startsWith [] (c # cs) = False"
| "startsWith (x # xs) (c # cs) = (x = c \<and> startsWith xs cs)"

definition endsWith :: "string \<Rightarrow> string \<Rightarrow> bool" where
  "endsWith s t = startsWith (rev s) (rev t)"

fun includesStr :: "string \<Rightarrow> string \<Rightarrow> bool" where
  "includesStr [] t = (t = [])"
| "includesStr (x # xs) t = (startsWith (x # xs) t \<or> includesStr xs t)"

text \<open>\<open>s.indexOf(t)\<close> and \<open>s.lastIndexOf(t)\<close>, \<open>-1\<close> when \<open>t\<close> does not occur.\<close>

fun indexOf :: "string \<Rightarrow> string \<Rightarrow> int" where
  "indexOf [] t = (if t = [] then 0 else - 1)"
| "indexOf (x # xs) t =
     (if startsWith (x # xs) t then 0
      else (let i = indexOf xs t in if i < 0 then - 1 else i + 1))"

fun lastIndexOf :: "string \<Rightarrow> string \<Rightarrow> int" where
  "lastIndexOf [] t = (if t = [] then 0 else - 1)"
| "lastIndexOf (x # xs) t =
     (let i = lastIndexOf xs t in
      if 0 \<le> i then i + 1 else if startsWith (x # xs) t then 0 else - 1)"

text \<open>\<open>s.split(c)\<close> for a one-character separator: at least one piece, also for the empty string.\<close>

fun split :: "char \<Rightarrow> string \<Rightarrow> string list" where
  "split c [] = [[]]"
| "split c (x # xs) =
     (if x = c then [] # split c xs
      else (case split c xs of [] \<Rightarrow> [[x]] | piece # pieces \<Rightarrow> (x # piece) # pieces))"

text \<open>\<open>parseInt\<close> on a string of decimal digits.\<close>

definition digitValue :: "char \<Rightarrow> nat" where
  "digitValue c = of_char c - 48"

definition parseInt :: "string \<Rightarrow> nat" where
  "parseInt ds = foldl (\<lambda>n c. 10 * n + digitValue c) 0 ds"

text \<open>The decimal digits of a natural number, as a template literal prints it.\<close>

fun showNat :: "nat \<Rightarrow> string" where
  "showNat n =
     (if n < 10 then [char_of (48 + n)]
      else showNat (n div 10) @ [char_of (48 + n mod 10)])"

text \<open>\<open>[...new Set(xs)]\<close>: the first occurrence of every element, in order.\<close>

fun uniq :: "'a list \<Rightarrow> 'a list" where
  "uniq [] = []"
| "uniq (x # xs) = x # uniq (filter (\<lambda>y. y \<noteq> x) xs)"


section \<open>Regular expressions\<close>

text \<open>
  The patterns of the source are values of \<open>regex\<close>; \<open>rmatch\<close> is the backtracking matcher of
  ECMAScript. It returns, in the order in which backtracking tries them, all the
  states in which the pattern can end when it starts in the given state, so the head of the
  list is the match the source sees. A state is the character before the position (for \<open>\b\<close>
  and \<open>^\<close>), the text from the position on, and the captured groups.
\<close>

datatype cclass = Lit char | Word | Space | Digit | Dot | AnyChar | OneOf string | NoneOf string

fun cmatch :: "cclass \<Rightarrow> char \<Rightarrow> bool" where
  "cmatch (Lit a) c = (c = a)"
| "cmatch Word c = isWord c"
| "cmatch Space c = isSpace c"
| "cmatch Digit c = isDigit c"
| "cmatch Dot c = (\<not> isLineTerminator c)"
| "cmatch AnyChar c = True"
| "cmatch (OneOf cs) c = (c \<in> set cs)"
| "cmatch (NoneOf cs) c = (c \<notin> set cs)"

datatype regex =
    Chr cclass
  | Eps
  | Seq regex regex
  | Alt regex regex
  | Star regex
  | LazyStar regex
  | Group nat regex
  | Bol
  | Eol
  | BolM
  | EolM
  | WordB

type_synonym mstate = "char option \<times> string \<times> (nat \<times> string) list"

definition rest :: "mstate \<Rightarrow> string" where
  "rest st = fst (snd st)"

definition atWordBoundary :: "char option \<Rightarrow> string \<Rightarrow> bool" where
  "atWordBoundary p s =
     ((case p of None \<Rightarrow> False | Some c \<Rightarrow> isWord c)
        \<noteq> (case s of [] \<Rightarrow> False | c # _ \<Rightarrow> isWord c))"

text \<open>
  An iteration of \<open>*\<close> that consumes nothing is not repeated (ECMAScript's empty check).
  \<open>Bol\<close> and \<open>Eol\<close> are \<open>^\<close> and \<open>$\<close>; \<open>BolM\<close> and \<open>EolM\<close> are the two under the flag \<open>m\<close>.
\<close>

function rmatch :: "regex \<Rightarrow> mstate \<Rightarrow> mstate list" where
  "rmatch (Chr c) st =
     (case rest st of
        [] \<Rightarrow> []
      | x # xs \<Rightarrow> if cmatch c x then [(Some x, xs, snd (snd st))] else [])"
| "rmatch Eps st = [st]"
| "rmatch (Seq a b) st = concat (map (\<lambda>st'. rmatch b st') (rmatch a st))"
| "rmatch (Alt a b) st = rmatch a st @ rmatch b st"
| "rmatch (Star r) st =
     concat (map (\<lambda>st'. if length (rest st') < length (rest st) then rmatch (Star r) st' else [])
               (rmatch r st)) @ [st]"
| "rmatch (LazyStar r) st =
     st # concat (map (\<lambda>st'. if length (rest st') < length (rest st)
                               then rmatch (LazyStar r) st' else [])
                    (rmatch r st))"
| "rmatch (Group n r) st =
     map (\<lambda>st'. (fst st', rest st',
                  (n, take (length (rest st) - length (rest st')) (rest st)) # snd (snd st')))
       (rmatch r st)"
| "rmatch Bol st = (if fst st = None then [st] else [])"
| "rmatch Eol st = (if rest st = [] then [st] else [])"
| "rmatch BolM st =
     (case fst st of None \<Rightarrow> [st] | Some c \<Rightarrow> if isLineTerminator c then [st] else [])"
| "rmatch EolM st =
     (case rest st of [] \<Rightarrow> [st] | c # _ \<Rightarrow> if isLineTerminator c then [st] else [])"
| "rmatch WordB st = (if atWordBoundary (fst st) (rest st) then [st] else [])"
  by pat_completeness auto
termination
  by (relation "measures [\<lambda>(r, st). size r, \<lambda>(r, st). length (rest st)]") auto

text \<open>Shorthands for writing the patterns down.\<close>

fun lits :: "string \<Rightarrow> regex" where
  "lits [] = Eps"
| "lits [c] = Chr (Lit c)"
| "lits (c # cs) = Seq (Chr (Lit c)) (lits cs)"

fun seqs :: "regex list \<Rightarrow> regex" where
  "seqs [] = Eps"
| "seqs [r] = r"
| "seqs (r # rs) = Seq r (seqs rs)"

fun alts :: "regex list \<Rightarrow> regex" where
  "alts [] = Eps"
| "alts [r] = r"
| "alts (r # rs) = Alt r (alts rs)"

definition Plus :: "regex \<Rightarrow> regex" where
  "Plus r = Seq r (Star r)"

definition Opt :: "regex \<Rightarrow> regex" where
  "Opt r = Alt r Eps"

text \<open>
  \<open>exec_at\<close> is one \<open>RegExp.prototype.exec\<close>: the first position from the current one on at
  which the pattern matches. It returns the index of the match, its text and the final state.
\<close>

fun exec_at :: "regex \<Rightarrow> nat \<Rightarrow> char option \<Rightarrow> string \<Rightarrow> (nat \<times> string \<times> mstate) option" where
  "exec_at r i p [] =
     (case rmatch r (p, [], []) of st # _ \<Rightarrow> Some (i, [], st) | [] \<Rightarrow> None)"
| "exec_at r i p (x # xs) =
     (case rmatch r (p, x # xs, []) of
        st # _ \<Rightarrow> Some (i, take (length (x # xs) - length (rest st)) (x # xs), st)
      | [] \<Rightarrow> exec_at r (Suc i) (Some x) xs)"

record rxmatch =
  m_index :: nat
  m_text :: string
  m_groups :: "(nat \<times> string) list"

text \<open>Group \<open>n\<close> of a match: \<open>None\<close> is \<open>undefined\<close>, a group that took no part.\<close>

definition grp :: "rxmatch \<Rightarrow> nat \<Rightarrow> string option" where
  "grp m n = map_of (m_groups m) n"

definition grpStr :: "rxmatch \<Rightarrow> nat \<Rightarrow> string" where
  "grpStr m n = (case grp m n of None \<Rightarrow> [] | Some g \<Rightarrow> g)"

text \<open>
  \<open>while ((match = regex.exec(code)) !== null)\<close> with the flag \<open>g\<close>: the next search starts
  where the last match ended. After an empty match the source would find the same match
  again and never leave the loop; that is the value \<open>None\<close>.
\<close>

function exec_loop :: "regex \<Rightarrow> nat \<Rightarrow> char option \<Rightarrow> string \<Rightarrow> rxmatch list option" where
  "exec_loop r i p s =
     (case exec_at r i p s of
        None \<Rightarrow> Some []
      | Some (idx, txt, st) \<Rightarrow>
          if txt \<noteq> [] \<and> length (rest st) < length s
          then map_option ((#) \<lparr>m_index = idx, m_text = txt, m_groups = snd (snd st)\<rparr>)
                 (exec_loop r (idx + length txt) (fst st) (rest st))
          else None)"
  by pat_completeness auto
termination
  by (relation "measure (\<lambda>(r, i, p, s). length s)") auto

text \<open>
  \<open>text.match(regex)\<close> and \<open>text.replace(regex, ...)\<close> with the flag \<open>g\<close>: all matches from left
  to right; after an empty match the search moves on by one character.
\<close>

function match_all :: "regex \<Rightarrow> nat \<Rightarrow> char option \<Rightarrow> string \<Rightarrow> rxmatch list" where
  "match_all r i p s =
     (case exec_at r i p s of
        None \<Rightarrow> []
      | Some (idx, txt, st) \<Rightarrow>
          \<lparr>m_index = idx, m_text = txt, m_groups = snd (snd st)\<rparr> #
          (if txt \<noteq> [] \<and> length (rest st) < length s
           then match_all r (idx + length txt) (fst st) (rest st)
           else (case rest st of
                   [] \<Rightarrow> []
                 | x # xs \<Rightarrow> if length xs < length s then match_all r (Suc idx) (Some x) xs else [])))"
  by pat_completeness auto
termination
  by (relation "measure (\<lambda>(r, i, p, s). length s)") auto

definition matchAll :: "regex \<Rightarrow> string \<Rightarrow> string list" where
  "matchAll r s = map m_text (match_all r 0 None s)"

definition countMatches :: "regex \<Rightarrow> string \<Rightarrow> nat" where
  "countMatches r s = length (match_all r 0 None s)"

text \<open>\<open>regex.test(text)\<close> and \<open>text.match(regex)\<close> without the flag \<open>g\<close>.\<close>

definition matchFirst :: "regex \<Rightarrow> string \<Rightarrow> rxmatch option" where
  "matchFirst r s =
     map_option (\<lambda>(idx, txt, st). \<lparr>m_index = idx, m_text = txt, m_groups = snd (snd st)\<rparr>)
       (exec_at r 0 None s)"

definition test :: "regex \<Rightarrow> string \<Rightarrow> bool" where
  "test r s = (matchFirst r s \<noteq> None)"

text \<open>\<open>text.replace(regex, '')\<close>: the text without the matched spans.\<close>

fun cut :: "nat \<Rightarrow> string \<Rightarrow> rxmatch list \<Rightarrow> string" where
  "cut pos s [] = s"
| "cut pos s (m # ms) =
     take (m_index m - pos) s
       @ cut (m_index m + length (m_text m)) (drop (m_index m - pos + length (m_text m)) s) ms"

definition removeAll :: "regex \<Rightarrow> string \<Rightarrow> string" where
  "removeAll r s = cut 0 s (match_all r 0 None s)"


section \<open>verilogParser.js\<close>

definition keywordList :: "string list" where
  "keywordList =
    [''module'', ''endmodule'', ''input'', ''output'', ''inout'', ''wire'', ''reg'',
     ''always'', ''initial'', ''assign'', ''begin'', ''end'', ''if'', ''else'',
     ''case'', ''endcase'', ''for'', ''while'', ''generate'', ''endgenerate'',
     ''function'', ''endfunction'', ''task'', ''endtask'', ''parameter'',
     ''localparam'', ''genvar'', ''integer'', ''real'', ''time'', ''realtime'']"

definition operators :: "string list" where
  "operators =
    [''&&'', ''||'', ''=='', ''!='', ''<='', ''>='', ''<'', ''>'', ''!'', ''&'', ''|'', ''^'', ''~'',
     ''+'', ''-'', ''*'', ''/'', ''%'', ''<<'', ''>>'', ''?'', '':'', ''='', ''@'', ''#'']"

definition systemTasks :: "string list" where
  "systemTasks =
    [''$display'', ''$monitor'', ''$write'', ''$finish'', ''$stop'', ''$time'',
     ''$realtime'', ''$dumpfile'', ''$dumpvars'', ''$random'', ''$urandom'']"

abbreviation sp :: regex where "sp \<equiv> Chr Space"
abbreviation wd :: regex where "wd \<equiv> Chr Word"
abbreviation dg :: regex where "dg \<equiv> Chr Digit"
abbreviation ch :: "char \<Rightarrow> regex" where "ch c \<equiv> Chr (Lit c)"

definition newline :: char where
  "newline = CHR 0x0A"

subsection \<open>removeComments\<close>

text \<open>\<^verbatim>\<open>/\/\/.*$/gm\<close> and \<^verbatim>\<open>/\/\*[\s\S]*?\*\//g\<close>\<close>

definition lineCommentRegex :: regex where
  "lineCommentRegex = seqs [lits ''//'', Star (Chr Dot), EolM]"

definition blockCommentRegex :: regex where
  "blockCommentRegex = seqs [lits ''/*'', LazyStar (Chr AnyChar), lits ''*/'']"

definition removeComments :: "string \<Rightarrow> string" where
  "removeComments code = removeAll blockCommentRegex (removeAll lineCommentRegex code)"

subsection \<open>findLineNumber\<close>

definition findLineNumber :: "string \<Rightarrow> nat \<Rightarrow> nat" where
  "findLineNumber code position = length (split newline (take position code))"

subsection \<open>tokenize and getTokenType\<close>

text \<open>\<^verbatim>\<open>/(\w+|\$\w+|\/\/.*|\/\*[\s\S]*?\*\/|"[^"]*"|'[^']*'|[{}();,\[\]@#=<>!&|^~+\-*/%?:]|\d+(?:\.\d+)?)/g\<close>\<close>

definition tokenRegex :: regex where
  "tokenRegex = Group 1 (alts [
     Plus wd,
     Seq (ch CHR ''$'') (Plus wd),
     Seq (lits ''//'') (Star (Chr Dot)),
     seqs [lits ''/*'', LazyStar (Chr AnyChar), lits ''*/''],
     seqs [ch CHR 0x22, Star (Chr (NoneOf [CHR 0x22])), ch CHR 0x22],
     seqs [ch CHR 0x27, Star (Chr (NoneOf [CHR 0x27])), ch CHR 0x27],
     Chr (OneOf ''{}();,[]@#=<>!&|^~+-*/%?:''),
     Seq (Plus dg) (Opt (Seq (ch CHR ''.'') (Plus dg)))])"

text \<open>
  \<^verbatim>\<open>/^\d+$/\<close>, \<^verbatim>\<open>/^\d+'[bhdoB][0-9a-fA-F_]+$/\<close>, \<^verbatim>\<open>/^".*"$/\<close>,
  \<^verbatim>\<open>/^[a-zA-Z_]\w*$/\<close>, \<^verbatim>\<open>/^[{}();,\[\]]$/\<close>
\<close>

definition numberRegex :: regex where
  "numberRegex = seqs [Bol, Plus dg, Eol]"

definition numberLiteralRegex :: regex where
  "numberLiteralRegex = seqs [Bol, Plus dg, ch CHR 0x27, Chr (OneOf ''bhdoB''),
     Plus (Chr (OneOf ''0123456789abcdefABCDEF_'')), Eol]"

definition stringRegex :: regex where
  "stringRegex = seqs [Bol, ch CHR 0x22, Star (Chr Dot), ch CHR 0x22, Eol]"

definition identifierRegex :: regex where
  "identifierRegex = seqs [Bol,
     Chr (OneOf ''abcdefghijklmnopqrstuvwxyzABCDEFGHIJKLMNOPQRSTUVWXYZ_''), Star wd, Eol]"

definition punctuationRegex :: regex where
  "punctuationRegex = seqs [Bol, Chr (OneOf ''{}();,[]''), Eol]"

definition getTokenType :: "string \<Rightarrow> string" where
  "getTokenType token =
    (if token \<in> set keywordList then ''keyword''
     else if token \<in> set operators then ''operator''
     else if token \<in> set systemTasks then ''system_task''
     else if test numberRegex token then ''number''
     else if test numberLiteralRegex token then ''number_literal''
     else if test stringRegex token then ''string''
     else if test identifierRegex token then ''identifier''
     else if test punctuationRegex token then ''punctuation''
     else ''unknown'')"

record token =
  tok_value :: string
  tok_type :: string

definition tokenize :: "string \<Rightarrow> token list" where
  "tokenize code =
    (let code' = removeComments code;
         tokens = matchAll tokenRegex code'
     in filter (\<lambda>token. length (tok_value token) > 0)
          (map (\<lambda>token. \<lparr>tok_value = trim token, tok_type = getTokenType (trim token)\<rparr>) tokens))"

subsection \<open>extractModules\<close>

text \<open>\<^verbatim>\<open>/module\s+(\w+)\s*(?:\#\s*\([^)]*\))?\s*\(([^)]*)\)\s*;([\s\S]*?)endmodule/g\<close>\<close>

definition moduleRegex :: regex where
  "moduleRegex = seqs [lits ''module'', Plus sp, Group 1 (Plus wd), Star sp,
     Opt (seqs [ch CHR ''#'', Star sp, ch CHR ''('', Star (Chr (NoneOf '')'')), ch CHR '')'']),
     Star sp, ch CHR ''('', Group 2 (Star (Chr (NoneOf '')''))), ch CHR '')'', Star sp,
     ch CHR '';'', Group 3 (LazyStar (Chr AnyChar)), lits ''endmodule'']"

definition parsePortList :: "string \<Rightarrow> string list" where
  "parsePortList portList =
    (if portList = [] then []
     else filter (\<lambda>port. length port > 0) (map trim (split CHR '','' portList)))"

record module_parameter =
  mp_name :: string
  mp_value :: "string option"

text \<open>\<^verbatim>\<open>/#\s*\(([^)]*)\)/\<close>\<close>

definition moduleParamRegex :: regex where
  "moduleParamRegex = seqs [ch CHR ''#'', Star sp, ch CHR ''('',
     Group 1 (Star (Chr (NoneOf '')''))), ch CHR '')'']"

text \<open>
  \<open>const [name, value] = param.split('=').map(p => p.trim())\<close> and \<open>value || null\<close>:
  the value is \<open>null\<close> when there is no second piece or when it is empty.
\<close>

definition extractModuleParameters :: "string \<Rightarrow> module_parameter list" where
  "extractModuleParameters moduleDeclaration =
    (case matchFirst moduleParamRegex moduleDeclaration of
       None \<Rightarrow> []
     | Some paramMatch \<Rightarrow>
         map (\<lambda>param.
                (case map trim (split CHR ''='' param) of
                   name # value # _ \<Rightarrow>
                     \<lparr>mp_name = name, mp_value = (if value = [] then None else Some value)\<rparr>
                 | [name] \<Rightarrow> \<lparr>mp_name = name, mp_value = None\<rparr>
                 | [] \<Rightarrow> \<lparr>mp_name = [], mp_value = None\<rparr>))
           (split CHR '','' (grpStr paramMatch 1)))"

record module_info =
  mod_name :: string
  mod_ports :: "string list"
  mod_body :: string
  mod_line_start :: nat
  mod_line_end :: nat
  mod_parameters :: "module_parameter list"

definition extractModules :: "string \<Rightarrow> module_info list option" where
  "extractModules code =
    map_option (map (\<lambda>m.
        \<lparr>mod_name = grpStr m 1,
         mod_ports = parsePortList (grpStr m 2),
         mod_body = trim (grpStr m 3),
         mod_line_start = findLineNumber code (m_index m),
         mod_line_end = findLineNumber code (m_index m + length (m_text m)),
         mod_parameters = extractModuleParameters (m_text m)\<rparr>))
      (exec_loop moduleRegex 0 None code)"

subsection \<open>extractPorts and extractSignals\<close>

text \<open>\<^verbatim>\<open>/(input|output|inout)\s*(?:\[\s*(\d+)\s*:\s*(\d+)\s*\])?\s*(\w+(?:\s*,\s*\w+)*)/g\<close>\<close>

definition declRegex :: "string list \<Rightarrow> regex" where
  "declRegex kinds = seqs [Group 1 (alts (map lits kinds)), Star sp,
     Opt (seqs [ch CHR ''['', Star sp, Group 2 (Plus dg), Star sp, ch CHR '':'', Star sp,
                Group 3 (Plus dg), Star sp, ch CHR '']'']),
     Star sp,
     Group 4 (Seq (Plus wd) (Star (seqs [Star sp, ch CHR '','', Star sp, Plus wd])))]"

definition portRegex :: regex where
  "portRegex = declRegex [''input'', ''output'', ''inout'']"

text \<open>\<^verbatim>\<open>/(wire|reg)\s*(?:\[\s*(\d+)\s*:\s*(\d+)\s*\])?\s*(\w+(?:\s*,\s*\w+)*)/g\<close>\<close>

definition signalRegex :: regex where
  "signalRegex = declRegex [''wire'', ''reg'']"

record port =
  port_name :: string
  port_direction :: string
  port_width :: int
  port_msb :: nat
  port_lsb :: nat
  port_line :: nat

text \<open>
  \<open>msb && lsb ? parseInt(msb) - parseInt(lsb) + 1 : 1\<close>; groups 2 and 3 are captured
  together or not at all.
\<close>

definition declWidth :: "rxmatch \<Rightarrow> int" where
  "declWidth m =
    (case (grp m 2, grp m 3) of
       (Some msb, Some lsb) \<Rightarrow> int (parseInt msb) - int (parseInt lsb) + 1
     | _ \<Rightarrow> 1)"

definition declBound :: "rxmatch \<Rightarrow> nat \<Rightarrow> nat" where
  "declBound m n = (case grp m n of Some b \<Rightarrow> parseInt b | None \<Rightarrow> 0)"

definition extractPorts :: "string \<Rightarrow> port list option" where
  "extractPorts code =
    map_option (\<lambda>ms. concat (map (\<lambda>m.
        map (\<lambda>portName.
              \<lparr>port_name = trim portName,
               port_direction = grpStr m 1,
               port_width = declWidth m,
               port_msb = declBound m 2,
               port_lsb = declBound m 3,
               port_line = findLineNumber code (m_index m)\<rparr>)
          (split CHR '','' (grpStr m 4))) ms))
      (exec_loop portRegex 0 None code)"

record signal =
  sig_name :: string
  sig_type :: string
  sig_width :: int
  sig_msb :: nat
  sig_lsb :: nat
  sig_line :: nat

definition extractSignals :: "string \<Rightarrow> signal list option" where
  "extractSignals code =
    map_option (\<lambda>ms. concat (map (\<lambda>m.
        map (\<lambda>signalName.
              \<lparr>sig_name = trim signalName,
               sig_type = grpStr m 1,
               sig_width = declWidth m,
               sig_msb = declBound m 2,
               sig_lsb = declBound m 3,
               sig_line = findLineNumber code (m_index m)\<rparr>)
          (split CHR '','' (grpStr m 4))) ms))
      (exec_loop signalRegex 0 None code)"


subsection \<open>extractInstances\<close>

text \<open>\<^verbatim>\<open>/\.(\w+)\s*\(([^)]*)\)/g\<close>\<close>

definition namedConnRegex :: regex where
  "namedConnRegex = seqs [ch CHR ''.'', Group 1 (Plus wd), Star sp, ch CHR ''('',
     Group 2 (Star (Chr (NoneOf '')''))), ch CHR '')'']"

record connection =
  conn_port :: string
  conn_signal :: string

definition parseConnections :: "string \<Rightarrow> connection list option" where
  "parseConnections connections =
    map_option (map (\<lambda>m. \<lparr>conn_port = grpStr m 1, conn_signal = trim (grpStr m 2)\<rparr>))
      (exec_loop namedConnRegex 0 None connections)"

text \<open>\<^verbatim>\<open>/(\w+)\s+(?:#\s*\([^)]*\)\s*)?(\w+)\s*\(([^;]*)\)\s*;/g\<close>\<close>

definition instanceRegex :: regex where
  "instanceRegex = seqs [Group 1 (Plus wd), Plus sp,
     Opt (seqs [ch CHR ''#'', Star sp, ch CHR ''('', Star (Chr (NoneOf '')'')), ch CHR '')'', Star sp]),
     Group 2 (Plus wd), Star sp, ch CHR ''('', Group 3 (Star (Chr (NoneOf '';''))), ch CHR '')'',
     Star sp, ch CHR '';'']"

record instance_info =
  inst_module_name :: string
  inst_instance_name :: string
  inst_connections :: "connection list"
  inst_line :: nat

definition extractInstances :: "string \<Rightarrow> instance_info list option" where
  "extractInstances code =
    Option.bind (exec_loop instanceRegex 0 None code) (\<lambda>ms.
      those (map (\<lambda>m.
          map_option (\<lambda>conns.
              \<lparr>inst_module_name = grpStr m 1,
               inst_instance_name = grpStr m 2,
               inst_connections = conns,
               inst_line = findLineNumber code (m_index m)\<rparr>)
            (parseConnections (grpStr m 3)))
        (filter (\<lambda>m. grpStr m 1 \<notin> set keywordList) ms)))"

subsection \<open>extractAlwaysBlocks\<close>

definition classifyAlwaysBlock :: "string \<Rightarrow> string \<Rightarrow> string" where
  "classifyAlwaysBlock sensitivity body =
    (if includesStr sensitivity ''posedge'' \<or> includesStr sensitivity ''negedge'' then ''sequential''
     else if includesStr sensitivity ''*'' \<or> includesStr sensitivity ''or'' then ''combinational''
     else ''unknown'')"

text \<open>\<^verbatim>\<open>/=\s*([^;]+)/g\<close>, \<^verbatim>\<open>/\b[a-zA-Z_]\w*\b/g\<close> and \<^verbatim>\<open>/(\w+)\s*[<]?=/g\<close>\<close>

definition readRegex :: regex where
  "readRegex = seqs [ch CHR ''='', Star sp, Group 1 (Plus (Chr (NoneOf '';'')))]"

definition identifierInTextRegex :: regex where
  "identifierInTextRegex = seqs [WordB,
     Chr (OneOf ''abcdefghijklmnopqrstuvwxyzABCDEFGHIJKLMNOPQRSTUVWXYZ_''), Star wd, WordB]"

definition writeRegex :: regex where
  "writeRegex = seqs [Group 1 (Plus wd), Star sp, Opt (Chr (OneOf ''<'')), ch CHR ''='']"

definition extractSignalsFromBlock :: "string \<Rightarrow> string \<Rightarrow> string list option" where
  "extractSignalsFromBlock block operation =
    (if operation = ''read''
     then map_option (\<lambda>ms. uniq (concat (map (\<lambda>m. matchAll identifierInTextRegex (grpStr m 1)) ms)))
            (exec_loop readRegex 0 None block)
     else if operation = ''write''
     then map_option (\<lambda>ms. uniq (map (\<lambda>m. grpStr m 1) ms)) (exec_loop writeRegex 0 None block)
     else Some [])"

text \<open>\<^verbatim>\<open>/always\s*@\s*\(([^)]*)\)\s*(begin\s*[\s\S]*?end|[^;]*;)/g\<close>\<close>

definition alwaysRegex :: regex where
  "alwaysRegex = seqs [lits ''always'', Star sp, ch CHR ''@'', Star sp, ch CHR ''('',
     Group 1 (Star (Chr (NoneOf '')''))), ch CHR '')'', Star sp,
     Group 2 (Alt (seqs [lits ''begin'', Star sp, LazyStar (Chr AnyChar), lits ''end''])
                  (Seq (Star (Chr (NoneOf '';''))) (ch CHR '';'')))]"

record always_block =
  ab_sensitivity_list :: string
  ab_body :: string
  ab_type :: string
  ab_line :: nat
  ab_signals_read :: "string list"
  ab_signals_written :: "string list"

definition extractAlwaysBlocks :: "string \<Rightarrow> always_block list option" where
  "extractAlwaysBlocks code =
    Option.bind (exec_loop alwaysRegex 0 None code) (\<lambda>ms.
      those (map (\<lambda>m.
          (let sensitivity = grpStr m 1; body = grpStr m 2 in
           Option.bind (extractSignalsFromBlock body ''read'') (\<lambda>signals_read.
           Option.bind (extractSignalsFromBlock body ''write'') (\<lambda>signals_written.
             Some \<lparr>ab_sensitivity_list = trim sensitivity,
                   ab_body = trim body,
                   ab_type = classifyAlwaysBlock sensitivity body,
                   ab_line = findLineNumber code (m_index m),
                   ab_signals_read = signals_read,
                   ab_signals_written = signals_written\<rparr>))))
        ms))"

subsection \<open>extractAssignments\<close>

text \<open>
  \<^verbatim>\<open>/[&|^~+\-*/%<>=!]/g\<close>, \<^verbatim>\<open>/[()]/g\<close> and \<^verbatim>\<open>/\?/g\<close>: operators, plus half the number
  of parentheses, plus twice the number of question marks.
\<close>

definition calculateExpressionComplexity :: "string \<Rightarrow> real" where
  "calculateExpressionComplexity expression =
    (let operators = countMatches (Chr (OneOf ''&|^~+-*/%<>=!'')) expression;
         parentheses = real (countMatches (Chr (OneOf ''()'')) expression) / 2;
         conditionals = countMatches (ch CHR ''?'') expression
     in real operators + parentheses + real conditionals * 2)"

text \<open>\<^verbatim>\<open>/assign\s+([^=]+)\s*=\s*([^;]+)\s*;/g\<close>\<close>

definition assignRegex :: regex where
  "assignRegex = seqs [lits ''assign'', Plus sp, Group 1 (Plus (Chr (NoneOf ''=''))), Star sp,
     ch CHR ''='', Star sp, Group 2 (Plus (Chr (NoneOf '';''))), Star sp, ch CHR '';'']"

record assignment =
  asg_lhs :: string
  asg_rhs :: string
  asg_line :: nat
  asg_complexity :: real

definition extractAssignments :: "string \<Rightarrow> assignment list option" where
  "extractAssignments code =
    map_option (map (\<lambda>m.
        \<lparr>asg_lhs = trim (grpStr m 1),
         asg_rhs = trim (grpStr m 2),
         asg_line = findLineNumber code (m_index m),
         asg_complexity = calculateExpressionComplexity (grpStr m 2)\<rparr>))
      (exec_loop assignRegex 0 None code)"

subsection \<open>extractParameters\<close>

text \<open>\<^verbatim>\<open>/(parameter|localparam)\s+(?:\[\s*\d+\s*:\s*\d+\s*\])?\s*(\w+)\s*=\s*([^;,]+)/g\<close>\<close>

definition paramRegex :: regex where
  "paramRegex = seqs [Group 1 (Alt (lits ''parameter'') (lits ''localparam'')), Plus sp,
     Opt (seqs [ch CHR ''['', Star sp, Plus dg, Star sp, ch CHR '':'', Star sp, Plus dg, Star sp,
                ch CHR '']'']),
     Star sp, Group 2 (Plus wd), Star sp, ch CHR ''='', Star sp,
     Group 3 (Plus (Chr (NoneOf '';,'')))]"

record parameter =
  par_name :: string
  par_type :: string
  par_value :: string
  par_line :: nat

definition extractParameters :: "string \<Rightarrow> parameter list option" where
  "extractParameters code =
    map_option (map (\<lambda>m.
        \<lparr>par_name = trim (grpStr m 2),
         par_type = grpStr m 1,
         par_value = trim (grpStr m 3),
         par_line = findLineNumber code (m_index m)\<rparr>))
      (exec_loop paramRegex 0 None code)"

subsection \<open>generateStatistics\<close>

text \<open>
  \<open>counts[type] = (counts[type] || 0) + 1\<close> on an object: the keys stay in the order of
  their first insertion.
\<close>

fun bump :: "(string \<times> nat) list \<Rightarrow> string \<Rightarrow> (string \<times> nat) list" where
  "bump [] k = [(k, 1)]"
| "bump ((k', n) # kvs) k = (if k' = k then (k', n + 1) # kvs else (k', n) # bump kvs k)"

record statistics =
  stat_total_lines :: nat
  stat_code_lines :: int
  stat_comment_lines :: nat
  stat_blank_lines :: int
  stat_total_tokens :: nat
  stat_token_distribution :: "(string \<times> nat) list"
  stat_avg_line_length :: jsnum

definition generateStatistics :: "string list \<Rightarrow> token list \<Rightarrow> statistics" where
  "generateStatistics lines tokens =
    (let nonEmptyLines = length (filter (\<lambda>line. length (trim line) > 0) lines);
         commentLines = length (filter (\<lambda>line. startsWith (trim line) ''//'') lines);
         tokenCounts = foldl (\<lambda>counts token. bump counts (tok_type token)) [] tokens
     in \<lparr>stat_total_lines = length lines,
         stat_code_lines = int nonEmptyLines - int commentLines,
         stat_comment_lines = commentLines,
         stat_blank_lines = int (length lines) - int nonEmptyLines,
         stat_total_tokens = length tokens,
         stat_token_distribution = tokenCounts,
         stat_avg_line_length =
           (if lines = [] then None
            else Some (real (foldl (\<lambda>sum line. sum + length line) 0 lines)
                         / real (length lines)))\<rparr>)"


subsection \<open>checkSyntax\<close>

record syntax_error =
  err_type :: string
  err_line :: "nat option"
  err_message :: string

text \<open>\<^verbatim>\<open>/\bbegin\b/g\<close>, \<^verbatim>\<open>/\bend\b/g\<close> and \<^verbatim>\<open>/^\s*(assign|wire|reg|input|output)/\<close>\<close>

definition beginRegex :: regex where
  "beginRegex = seqs [WordB, lits ''begin'', WordB]"

definition endRegex :: regex where
  "endRegex = seqs [WordB, lits ''end'', WordB]"

definition statementRegex :: regex where
  "statementRegex = seqs [Bol, Star sp,
     Group 1 (alts (map lits [''assign'', ''wire'', ''reg'', ''input'', ''output'']))]"

text \<open>The variables that the \<open>forEach\<close> over the lines updates.\<close>

record syntax_state =
  parenCount :: int
  bracketCount :: int
  beginCount :: int
  errors :: "syntax_error list"

text \<open>
  One round of the \<open>forEach\<close>: \<open>line\<close> is \<open>lines[index]\<close> and \<open>nextLine\<close> is \<open>lines[index + 1]\<close>,
  \<open>None\<close> after the last line. An empty next line is falsy.
\<close>

definition checkSyntaxLine :: "nat \<Rightarrow> string \<Rightarrow> string option \<Rightarrow> syntax_state \<Rightarrow> syntax_state" where
  "checkSyntaxLine index line nextLine st =
    (let lineNum = index + 1;
         st1 = st\<lparr>
           parenCount := parenCount st + int (countMatches (ch CHR ''('') line)
                           - int (countMatches (ch CHR '')'') line),
           bracketCount := bracketCount st + int (countMatches (ch CHR ''['') line)
                           - int (countMatches (ch CHR '']'') line),
           beginCount := beginCount st + int (countMatches beginRegex line)
                           - int (countMatches endRegex line)\<rparr>;
         st2 = (if test statementRegex line \<and> \<not> includesStr line '';'' \<and> \<not> includesStr line ''(''
                then st1\<lparr>errors := errors st1 @
                       [\<lparr>err_type = ''missing_semicolon'', err_line = Some lineNum,
                         err_message = ''Missing semicolon at end of statement''\<rparr>]\<rparr>
                else st1)
     in if includesStr line ''if'' \<and> \<not> includesStr line ''begin''
           \<and> \<not> (case nextLine of None \<Rightarrow> False | Some l \<Rightarrow> startsWith (trim l) ''begin'')
        then (case nextLine of
                Some l \<Rightarrow>
                  if l \<noteq> [] \<and> \<not> includesStr l ''else'' \<and> \<not> endsWith (trim l) '';''
                  then st2\<lparr>errors := errors st2 @
                         [\<lparr>err_type = ''incomplete_if'', err_line = Some lineNum,
                           err_message = ''Incomplete if statement may infer latch''\<rparr>]\<rparr>
                  else st2
              | None \<Rightarrow> st2)
        else st2)"

fun checkSyntaxLines :: "nat \<Rightarrow> string list \<Rightarrow> syntax_state \<Rightarrow> syntax_state" where
  "checkSyntaxLines index [] st = st"
| "checkSyntaxLines index [line] st = checkSyntaxLine index line None st"
| "checkSyntaxLines index (line # nextLine # later) st =
     checkSyntaxLines (Suc index) (nextLine # later)
       (checkSyntaxLine index line (Some nextLine) st)"

definition unbalancedMessage :: "string \<Rightarrow> int \<Rightarrow> string \<Rightarrow> string" where
  "unbalancedMessage what n closing =
    ''Unbalanced '' @ what @ '': '' @ (if n > 0 then ''missing'' else ''extra'') @ '' ''
      @ showNat (nat \<bar>n\<bar>) @ '' '' @ closing"

definition checkSyntax :: "string \<Rightarrow> syntax_error list" where
  "checkSyntax code =
    (let lines = split newline code;
         st = checkSyntaxLines 0 lines
                \<lparr>parenCount = 0, bracketCount = 0, beginCount = 0, errors = []\<rparr>
     in errors st
        @ (if parenCount st \<noteq> 0
           then [\<lparr>err_type = ''unbalanced_parentheses'', err_line = None,
                  err_message = unbalancedMessage ''parentheses'' (parenCount st)
                                  ''closing parentheses''\<rparr>]
           else [])
        @ (if bracketCount st \<noteq> 0
           then [\<lparr>err_type = ''unbalanced_brackets'', err_line = None,
                  err_message = unbalancedMessage ''brackets'' (bracketCount st)
                                  ''closing brackets''\<rparr>]
           else [])
        @ (if beginCount st \<noteq> 0
           then [\<lparr>err_type = ''unbalanced_begin_end'', err_line = None,
                  err_message = unbalancedMessage ''begin/end'' (beginCount st)
                                  ''end statements''\<rparr>]
           else []))"

subsection \<open>calculateComplexity\<close>

definition classifyComplexity :: "real \<Rightarrow> string" where
  "classifyComplexity complexity =
    (if complexity < 10 then ''simple''
     else if complexity < 25 then ''moderate''
     else if complexity < 50 then ''complex''
     else ''very_complex'')"

record complexity =
  cx_total :: real
  cx_per_module :: real
  cx_category :: string

text \<open>\<^verbatim>\<open>/\bif\b/g\<close>, \<^verbatim>\<open>/\bcase\b/g\<close> and \<^verbatim>\<open>/\bfor\b/g\<close>\<close>

definition wordRegex :: "string \<Rightarrow> regex" where
  "wordRegex w = seqs [WordB, lits w, WordB]"

definition calculateComplexity :: "string \<Rightarrow> complexity option" where
  "calculateComplexity code =
    Option.bind (extractModules code) (\<lambda>modules.
    Option.bind (extractAlwaysBlocks code) (\<lambda>alwaysBlocks.
    Option.bind (extractAssignments code) (\<lambda>assignments.
      (let c0 = real (length modules * 2);
           c1 = foldl (\<lambda>total block.
                   total + 3
                     + real (countMatches (wordRegex ''if'') (ab_body block) * 2)
                     + real (countMatches (wordRegex ''case'') (ab_body block) * 3)
                     + real (countMatches (wordRegex ''for'') (ab_body block) * 4))
                 c0 alwaysBlocks;
           totalComplexity = foldl (\<lambda>total assign. total + asg_complexity assign) c1 assignments
       in Some \<lparr>cx_total = totalComplexity,
                cx_per_module =
                  (if length modules > 0 then totalComplexity / real (length modules) else 0),
                cx_category = classifyComplexity totalComplexity\<rparr>))))"

subsection \<open>parseVerilogCode\<close>

text \<open>
  No statement in the \<open>try\<close> block throws on a string, so the \<open>catch\<close> branch is never taken
  and the result has \<open>success: true\<close>. The value is \<open>None\<close> when a scanning loop of the source
  would never end.
\<close>

record parse_result =
  success :: bool
  modules :: "module_info list"
  ports :: "port list"
  signals :: "signal list"
  instances :: "instance_info list"
  always_blocks :: "always_block list"
  assignments :: "assignment list"
  parameters :: "parameter list"
  statistics :: statistics
  syntax_errors :: "syntax_error list"
  complexity :: complexity

definition parseVerilogCode :: "string \<Rightarrow> parse_result option" where
  "parseVerilogCode verilogCode =
    (let lines = split newline verilogCode;
         tokens = tokenize verilogCode
     in Option.bind (extractModules verilogCode) (\<lambda>ms.
        Option.bind (extractPorts verilogCode) (\<lambda>ps.
        Option.bind (extractSignals verilogCode) (\<lambda>ss.
        Option.bind (extractInstances verilogCode) (\<lambda>is.
        Option.bind (extractAlwaysBlocks verilogCode) (\<lambda>bs.
        Option.bind (extractAssignments verilogCode) (\<lambda>as.
        Option.bind (extractParameters verilogCode) (\<lambda>prs.
        Option.bind (calculateComplexity verilogCode) (\<lambda>cx.
          Some \<lparr>success = True,
                modules = ms,
                ports = ps,
                signals = ss,
                instances = is,
                always_blocks = bs,
                assignments = as,
                parameters = prs,
                statistics = generateStatistics lines tokens,
                syntax_errors = checkSyntax verilogCode,
                complexity = cx\<rparr>)))))))))"


section \<open>The synthesis linter: checkCombinationalLogic\<close>

record lint_issue =
  issue_line :: nat
  issue_severity :: string
  issue_rule :: string
  issue_message :: string
  issue_suggestion :: string

text \<open>\<^verbatim>\<open>/always\s*@\s*\(\*/\<close> and \<^verbatim>\<open>/assign\s+(\w+)\s*=/\<close>\<close>

definition alwaysStarRegex :: regex where
  "alwaysStarRegex = seqs [lits ''always'', Star sp, ch CHR ''@'', Star sp, ch CHR ''('', ch CHR ''*'']"

definition assignLhsRegex :: regex where
  "assignLhsRegex = seqs [lits ''assign'', Plus sp, Group 1 (Plus wd), Star sp, ch CHR ''='']"

record comb_state =
  inAlwaysBlock :: bool
  hasElse :: bool
  hasDefault :: bool
  issues :: "lint_issue list"

text \<open>One round of the \<open>forEach\<close> of \<open>checkCombinationalLogic\<close> on \<open>lines[index]\<close>.\<close>

definition checkCombinationalLine :: "string list \<Rightarrow> nat \<Rightarrow> string \<Rightarrow> comb_state \<Rightarrow> comb_state" where
  "checkCombinationalLine lines index line st =
    (let trimmed = trim line;
         st1 = (if test alwaysStarRegex trimmed
                then st\<lparr>inAlwaysBlock := True, hasElse := False, hasDefault := False\<rparr>
                else st);
         st2 = (if trimmed = ''end'' \<and> inAlwaysBlock st1
                then (let st' =
                       (if inAlwaysBlock st1 \<and> \<not> hasElse st1 \<and> \<not> hasDefault st1
                        then (let blockLines = drop (index - 20) (take index lines);
                                  hasIf = list_ex (\<lambda>l. includesStr l ''if'') blockLines;
                                  hasCase = list_ex (\<lambda>l. includesStr l ''case'') blockLines
                              in if hasIf \<or> hasCase
                                 then st1\<lparr>issues := issues st1 @
                                        [\<lparr>issue_line = index + 1,
                                          issue_severity = ''error'',
                                          issue_rule = ''inferred_latch'',
                                          issue_message = ''Incomplete if/case statement may infer latch'',
                                          issue_suggestion = ''Add else clause or default assignment''\<rparr>]\<rparr>
                                 else st1)
                        else st1)
                      in st'\<lparr>inAlwaysBlock := False\<rparr>)
                else st1);
         st3 = (if includesStr trimmed ''else'' then st2\<lparr>hasElse := True\<rparr> else st2);
         st4 = (if includesStr trimmed ''default'' then st3\<lparr>hasDefault := True\<rparr> else st3)
     in case matchFirst assignLhsRegex trimmed of
          None \<Rightarrow> st4
        | Some assignMatch \<Rightarrow>
            (let lhs = grpStr assignMatch 1 in
             if includesStr line lhs \<and> indexOf line lhs \<noteq> lastIndexOf line lhs
             then st4\<lparr>issues := issues st4 @
                    [\<lparr>issue_line = index + 1,
                      issue_severity = ''error'',
                      issue_rule = ''combinational_loop'',
                      issue_message = ''Potential combinational loop with signal '' @ lhs,
                      issue_suggestion = ''Break the feedback path or use registers''\<rparr>]\<rparr>
             else st4))"

fun checkCombinationalLines :: "string list \<Rightarrow> nat \<Rightarrow> string list \<Rightarrow> comb_state \<Rightarrow> comb_state" where
  "checkCombinationalLines lines index [] st = st"
| "checkCombinationalLines lines index (line # later) st =
     checkCombinationalLines lines (Suc index) later (checkCombinationalLine lines index line st)"

definition checkCombinationalLogic :: "string list \<Rightarrow> lint_issue list" where
  "checkCombinationalLogic lines =
    issues (checkCombinationalLines lines 0 lines
      \<lparr>inAlwaysBlock = False, hasElse = False, hasDefault = False, issues = []\<rparr>)"


text \<open>
  The findings of the rule \<open>inferred_latch\<close>, the finding it reports for a line, the lines that
  open a combinational block, and the lines of a block body that neither close it nor mention
  \<open>else\<close> or \<open>default\<close>.
\<close>

definition latchIssues :: "lint_issue list \<Rightarrow> lint_issue list" where
  "latchIssues found = filter (\<lambda>i. issue_rule i = ''inferred_latch'') found"

definition latchIssue :: "nat \<Rightarrow> lint_issue" where
  "latchIssue n = \<lparr>issue_line = n, issue_severity = ''error'', issue_rule = ''inferred_latch'',
     issue_message = ''Incomplete if/case statement may infer latch'',
     issue_suggestion = ''Add else clause or default assignment''\<rparr>"

definition startsCombinationalBlock :: "string \<Rightarrow> bool" where
  "startsCombinationalBlock line = test alwaysStarRegex (trim line)"

definition plainBodyLine :: "string \<Rightarrow> bool" where
  "plainBodyLine line =
     (trim line \<noteq> ''end'' \<and> \<not> includesStr (trim line) ''else''
        \<and> \<not> includesStr (trim line) ''default'')"

text \<open>Whether a pattern can match the empty string, read off its syntax.\<close>

fun nullable :: "regex \<Rightarrow> bool" where
  "nullable (Chr c) = False"
| "nullable (Seq a b) = (nullable a \<and> nullable b)"
| "nullable (Alt a b) = (nullable a \<or> nullable b)"
| "nullable (Group n r) = nullable r"
| "nullable r = True"

text \<open>
  The excess of opening over closing parentheses in a text, and the finding of \<open>checkSyntax\<close>
  for an imbalance \<open>n\<close>.
\<close>

definition parenImbalance :: "string \<Rightarrow> int" where
  "parenImbalance code = int (count_list code CHR ''('') - int (count_list code CHR '')'')"

definition unbalancedParentheses :: "int \<Rightarrow> syntax_error" where
  "unbalancedParentheses n = \<lparr>err_type = ''unbalanced_parentheses'', err_line = None,
     err_message = ''Unbalanced parentheses: '' @ (if n > 0 then ''missing'' else ''extra'') @ '' ''
        @ showNat (nat \<bar>n\<bar>) @ '' closing parentheses''\<rparr>"

(*DEFS-END*)

section \<open>Properties of the estimators\<close>

lemmas catalog_defs = js_get_def deviceSpecs_def designPatterns_def findPattern_def
  objectPrototypeKeys_def dflt_def truthy_def on1_def on2_def js_log2_def js_sqrt_def

lemmas timing_defs = calculateTiming_def timing_logicDelay_def timing_routingDelay_def
  timing_levels_def timing_totalDelay_def timing_tempFactor_def timing_maxFrequency_def
  getSpeedGradeFactor_def toFixedNum_def

lemma log2_8: "log 2 8 = 3"
  using log_pow_cancel [of 2 3] by simp

lemma log2_16: "log 2 16 = 4"
  using log_pow_cancel [of 2 4] by simp

lemma log2_32: "log 2 32 = 5"
  using log_pow_cancel [of 2 5] by simp

subsection \<open>Unknown devices\<close>

text \<open>
  \<open>calculateTiming\<close> and \<open>calculatePower\<close> look the device up first and throw when the catalog
  has no entry of that name (and \<open>Object.prototype\<close> no member).
\<close>

lemma calculateTiming_unknown_device:
  assumes "js_get deviceSpecs (dflt ''Artix-7'' (cfg_device cfg)) = Missing"
  shows "calculateTiming cfg =
    Threw (''Timing calculation failed: Unsupported device: '' @ dflt ''Artix-7'' (cfg_device cfg))"
  using assms by (simp add: calculateTiming_def Let_def)

lemma calculatePower_unknown_device:
  assumes "js_get deviceSpecs (dflt ''Artix-7'' (cfg_device cfg)) = Missing"
  shows "calculatePower cfg =
    Threw (''Power calculation failed: Unsupported device: '' @ dflt ''Artix-7'' (cfg_device cfg))"
  using assms by (simp add: calculatePower_def Let_def)

text \<open>
  Claim C1. Every estimator is to fail with an unknown-device error when the device is not in
  the catalog. \<open>calculateResources\<close> never reads the device catalog: for the device
  \<open>Nonexistent-9000\<close>, which the catalog does not have, the two other estimators throw and
  \<open>calculateResources\<close> returns the estimate of the default 8-bit ripple-carry adder.
\<close>

theorem calculateResources_unknown_device_returns:
  "js_get deviceSpecs ''Nonexistent-9000'' = Missing \<and>
   calculateTiming (emptyConfig\<lparr>cfg_device := Some ''Nonexistent-9000''\<rparr>) =
     Threw ''Timing calculation failed: Unsupported device: Nonexistent-9000'' \<and>
   calculatePower (emptyConfig\<lparr>cfg_device := Some ''Nonexistent-9000''\<rparr>) =
     Threw ''Power calculation failed: Unsupported device: Nonexistent-9000'' \<and>
   calculateResources (emptyConfig\<lparr>cfg_device := Some ''Nonexistent-9000''\<rparr>) =
     Returned \<lparr>res_luts = 8, res_ffs = 9, res_brams = 0, res_dsps = 0, res_ios = 19,
       res_total_equivalent_luts = 13\<rparr>"
  by (simp add: calculateResources_def resource_usage_def calculateTiming_def calculatePower_def
      emptyConfig_def catalog_defs Let_def)

subsection \<open>Ripple-carry timing\<close>

lemma ripple8:
  "calculateTiming (rippleCarryOnArtix7 8) = Returned
    \<lparr>logic_delay = 1, routing_delay = 1.2, total_delay = 2.2, max_frequency = 450,
     setup_slack = 7.8, hold_slack = 0.5,
     critical_path = \<lparr>cp_levels = 3, cp_fanout = 4, cp_bottleneck = ''routing''\<rparr>\<rparr>"
  by (simp add: rippleCarryOnArtix7_def emptyConfig_def catalog_defs timing_defs log2_8 Let_def)

lemma ripple16:
  "calculateTiming (rippleCarryOnArtix7 16) = Returned
    \<lparr>logic_delay = 2, routing_delay = 2.4, total_delay = 4.4, max_frequency = 227.3,
     setup_slack = 5.6, hold_slack = 0.5,
     critical_path = \<lparr>cp_levels = 4, cp_fanout = 4, cp_bottleneck = ''routing''\<rparr>\<rparr>"
  by (simp add: rippleCarryOnArtix7_def emptyConfig_def catalog_defs timing_defs log2_16 Let_def)

lemma ripple32:
  "calculateTiming (rippleCarryOnArtix7 32) = Returned
    \<lparr>logic_delay = 4, routing_delay = 4.8, total_delay = 8.8, max_frequency = 113.6,
     setup_slack = 1.2, hold_slack = 0.5,
     critical_path = \<lparr>cp_levels = 5, cp_fanout = 4, cp_bottleneck = ''routing''\<rparr>\<rparr>"
  by (simp add: rippleCarryOnArtix7_def emptyConfig_def catalog_defs timing_defs log2_32 Let_def)

text \<open>
  Claim C6. With device Artix-7, component adder, architecture ripple_carry and every other
  parameter at its default, the total delay that \<open>calculateTiming\<close> returns increases strictly
  along the widths 8, 16, 32 (2.2 ns, 4.4 ns, 8.8 ns).
\<close>

theorem ripple_carry_total_delay_increasing:
  "\<exists>t8 t16 t32.
     calculateTiming (rippleCarryOnArtix7 8) = Returned t8 \<and>
     calculateTiming (rippleCarryOnArtix7 16) = Returned t16 \<and>
     calculateTiming (rippleCarryOnArtix7 32) = Returned t32 \<and>
     total_delay t8 < total_delay t16 \<and> total_delay t16 < total_delay t32"
  by (simp add: ripple8 ripple16 ripple32)

section \<open>Properties of the parser\<close>

subsection \<open>Strings\<close>


lemma startsWith_iff: "startsWith s t \<longleftrightarrow> (\<exists>v. s = t @ v)"
  by (induction s t rule: startsWith.induct) auto

lemma includesStr_iff: "includesStr s t \<longleftrightarrow> (\<exists>u v. s = u @ t @ v)"
proof (induction s)
  case Nil
  then show ?case by auto
next
  case (Cons x xs)
  show ?case
  proof
    assume "includesStr (x # xs) t"
    then consider "startsWith (x # xs) t" | "includesStr xs t" by auto
    then show "\<exists>u v. x # xs = u @ t @ v"
    proof cases
      case 1
      then obtain v where "x # xs = t @ v" by (auto simp: startsWith_iff)
      then have "x # xs = [] @ t @ v" by simp
      then show ?thesis by blast
    next
      case 2
      then obtain u v where "xs = u @ t @ v" using Cons.IH by auto
      then have "x # xs = (x # u) @ t @ v" by simp
      then show ?thesis by blast
    qed
  next
    assume "\<exists>u v. x # xs = u @ t @ v"
    then obtain u v where uv: "x # xs = u @ t @ v" by auto
    show "includesStr (x # xs) t"
    proof (cases u)
      case Nil
      with uv have "startsWith (x # xs) t" by (auto simp: startsWith_iff)
      then show ?thesis by simp
    next
      case (Cons y ys)
      with uv have "xs = ys @ t @ v" by simp
      then have "includesStr xs t" using Cons.IH by blast
      then show ?thesis by simp
    qed
  qed
qed

subsection \<open>classifyAlwaysBlock\<close>

text \<open>
  Claim C10. \<open>classifyAlwaysBlock\<close> answers \<open>sequential\<close> whenever the sensitivity list
  contains \<open>posedge\<close> or \<open>negedge\<close>, whatever else it contains; \<open>combinational\<close> when it
  contains \<open>*\<close> or the two characters \<open>or\<close> anywhere (also inside \<open>color\<close>) and no edge
  keyword; and \<open>unknown\<close> otherwise. \<open>includesStr\<close> is \<open>String.prototype.includes\<close>
  (lemma \<open>includesStr_iff\<close>).
\<close>

theorem classifyAlwaysBlock_cases:
  "(includesStr sensitivity ''posedge'' \<or> includesStr sensitivity ''negedge''
      \<longrightarrow> classifyAlwaysBlock sensitivity body = ''sequential'') \<and>
   (\<not> includesStr sensitivity ''posedge'' \<and> \<not> includesStr sensitivity ''negedge'' \<and>
    (includesStr sensitivity ''*'' \<or> includesStr sensitivity ''or'')
      \<longrightarrow> classifyAlwaysBlock sensitivity body = ''combinational'') \<and>
   (\<not> includesStr sensitivity ''posedge'' \<and> \<not> includesStr sensitivity ''negedge'' \<and>
    \<not> includesStr sensitivity ''*'' \<and> \<not> includesStr sensitivity ''or''
      \<longrightarrow> classifyAlwaysBlock sensitivity body = ''unknown'')"
  by (simp add: classifyAlwaysBlock_def)

theorem classifyAlwaysBlock_cases_witness:
  "classifyAlwaysBlock ''posedge clk or negedge rst_n'' ''q <= d;'' = ''sequential'' \<and>
   classifyAlwaysBlock ''*'' ''q = d;'' = ''combinational'' \<and>
   classifyAlwaysBlock ''color'' ''q = d;'' = ''combinational'' \<and>
   classifyAlwaysBlock ''a, b'' ''q = d;'' = ''unknown''"
proof -
  have 1: "includesStr ''posedge clk or negedge rst_n'' ''posedge''"
    by code_simp
  have 2: "\<not> includesStr ''*'' ''posedge'' \<and> \<not> includesStr ''*'' ''negedge'' \<and> includesStr ''*'' ''*''"
    by code_simp
  have 3: "\<not> includesStr ''color'' ''posedge'' \<and> \<not> includesStr ''color'' ''negedge'' \<and>
     includesStr ''color'' ''or''"
    by code_simp
  have 4: "\<not> includesStr ''a, b'' ''posedge'' \<and> \<not> includesStr ''a, b'' ''negedge'' \<and>
     \<not> includesStr ''a, b'' ''*'' \<and> \<not> includesStr ''a, b'' ''or''"
    by code_simp
  have a: "classifyAlwaysBlock ''posedge clk or negedge rst_n'' ''q <= d;'' = ''sequential''"
    using classifyAlwaysBlock_cases [of "''posedge clk or negedge rst_n''" "''q <= d;''"] 1
    by (elim conjE) (rule mp, assumption, rule disjI1, assumption)
  have b: "classifyAlwaysBlock ''*'' ''q = d;'' = ''combinational''"
    using classifyAlwaysBlock_cases [of "''*''" "''q = d;''"] 2
    by (elim conjE) (rule mp [where P = "_ \<and> _ \<and> (_ \<or> _)"], assumption, intro conjI disjI1, assumption+)
  have c: "classifyAlwaysBlock ''color'' ''q = d;'' = ''combinational''"
    using classifyAlwaysBlock_cases [of "''color''" "''q = d;''"] 3
    by (elim conjE) (rule mp [where P = "_ \<and> _ \<and> (_ \<or> _)"], assumption, intro conjI disjI2, assumption+)
  have d: "classifyAlwaysBlock ''a, b'' ''q = d;'' = ''unknown''"
    using classifyAlwaysBlock_cases [of "''a, b''" "''q = d;''"] 4
    by (elim conjE) (rule mp [where P = "_ \<and> _ \<and> _ \<and> _"], assumption, intro conjI, assumption+)
  show ?thesis
    using a b c d by (intro conjI)
qed

section \<open>Properties of the linter\<close>


lemma checkCombinationalLines_append:
  "checkCombinationalLines lines index (xs @ ys) st =
     checkCombinationalLines lines (index + length xs) ys (checkCombinationalLines lines index xs st)"
  by (induction xs arbitrary: index st) auto

lemma latchIssues_append [simp]: "latchIssues (xs @ ys) = latchIssues xs @ latchIssues ys"
  by (simp add: latchIssues_def)

lemma not_latch_loop [simp]: "''combinational_loop'' \<noteq> ''inferred_latch''"
  by simp

text \<open>A line outside a combinational block that opens none leaves the latch findings alone.\<close>

lemma quiet_line:
  assumes "\<not> inAlwaysBlock st" and "\<not> startsCombinationalBlock line"
  shows "\<not> inAlwaysBlock (checkCombinationalLine lines index line st) \<and>
         latchIssues (issues (checkCombinationalLine lines index line st)) = latchIssues (issues st)"
  using assms
  by (simp add: checkCombinationalLine_def startsCombinationalBlock_def Let_def latchIssues_def
      split: option.split)

lemma quiet_lines:
  assumes "\<not> inAlwaysBlock st" and "\<not> list_ex startsCombinationalBlock xs"
  shows "\<not> inAlwaysBlock (checkCombinationalLines lines index xs st) \<and>
         latchIssues (issues (checkCombinationalLines lines index xs st)) = latchIssues (issues st)"
  using assms
proof (induction xs arbitrary: index st)
  case Nil
  then show ?case by simp
next
  case (Cons x xs)
  from Cons.prems have q: "\<not> startsCombinationalBlock x" and r: "\<not> list_ex startsCombinationalBlock xs"
    by simp_all
  note step = quiet_line [OF Cons.prems(1) q, of lines index]
  from Cons.IH [OF conjunct1 [OF step] r, of "Suc index"] step
  show ?case by simp
qed

lemma end_not_always: "\<not> test alwaysStarRegex ''end''"
  by code_simp

lemma end_no_else: "\<not> includesStr ''end'' ''else'' \<and> \<not> includesStr ''end'' ''default''"
  by code_simp

lemma end_no_assign: "matchFirst assignLhsRegex ''end'' = None"
  by code_simp

text \<open>The line that opens the block.\<close>

lemma header_line:
  assumes "startsCombinationalBlock line"
    and "\<not> includesStr (trim line) ''else''" and "\<not> includesStr (trim line) ''default''"
  shows "inAlwaysBlock (checkCombinationalLine lines index line st) \<and>
         \<not> hasElse (checkCombinationalLine lines index line st) \<and>
         \<not> hasDefault (checkCombinationalLine lines index line st) \<and>
         latchIssues (issues (checkCombinationalLine lines index line st)) = latchIssues (issues st)"
proof -
  have "trim line \<noteq> ''end''"
    using assms(1) end_not_always by (auto simp: startsCombinationalBlock_def)
  then show ?thesis
    using assms
    by (simp add: checkCombinationalLine_def startsCombinationalBlock_def Let_def latchIssues_def
        split: option.split)
qed

lemma body_line:
  assumes "inAlwaysBlock st" "\<not> hasElse st" "\<not> hasDefault st" "plainBodyLine line"
  shows "inAlwaysBlock (checkCombinationalLine lines index line st) \<and>
         \<not> hasElse (checkCombinationalLine lines index line st) \<and>
         \<not> hasDefault (checkCombinationalLine lines index line st) \<and>
         latchIssues (issues (checkCombinationalLine lines index line st)) = latchIssues (issues st)"
  using assms
  by (simp add: checkCombinationalLine_def plainBodyLine_def Let_def latchIssues_def
      split: option.split)

lemma body_lines:
  assumes "inAlwaysBlock st" "\<not> hasElse st" "\<not> hasDefault st" "list_all plainBodyLine xs"
  shows "inAlwaysBlock (checkCombinationalLines lines index xs st) \<and>
         \<not> hasElse (checkCombinationalLines lines index xs st) \<and>
         \<not> hasDefault (checkCombinationalLines lines index xs st) \<and>
         latchIssues (issues (checkCombinationalLines lines index xs st)) = latchIssues (issues st)"
  using assms
proof (induction xs arbitrary: index st)
  case Nil
  then show ?case by simp
next
  case (Cons x xs)
  from Cons.prems have p: "plainBodyLine x" and r: "list_all plainBodyLine xs" by simp_all
  note step = body_line [OF Cons.prems(1,2,3) p, of lines index]
  from step have a: "inAlwaysBlock (checkCombinationalLine lines index x st)"
    and b: "\<not> hasElse (checkCombinationalLine lines index x st)"
    and c: "\<not> hasDefault (checkCombinationalLine lines index x st)" by simp_all
  from Cons.IH [OF a b c r, of "Suc index"] step
  show ?case by simp
qed

text \<open>The line \<open>end\<close> that closes the block.\<close>

lemma closing_line:
  assumes "inAlwaysBlock st" "\<not> hasElse st" "\<not> hasDefault st" "trim line = ''end''"
    and "list_ex (\<lambda>l. includesStr l ''if'') (drop (index - 20) (take index lines))"
  shows "\<not> inAlwaysBlock (checkCombinationalLine lines index line st) \<and>
         latchIssues (issues (checkCombinationalLine lines index line st))
           = latchIssues (issues st) @ [latchIssue (index + 1)]"
  using assms end_not_always end_no_else end_no_assign
  by (simp add: checkCombinationalLine_def Let_def latchIssues_def latchIssue_def)

text \<open>
  Claim C8, as the code has it. The lines are a prefix, the line that opens a combinational
  block (\<open>always @(*\<close>), body lines, the line \<open>end\<close> and a suffix. No line of the prefix or the
  suffix opens a combinational block; the opening line and the body lines contain neither
  \<open>else\<close> nor \<open>default\<close>; no body line is \<open>end\<close> when trimmed; a body line among the 20 lines
  before the closing \<open>end\<close> contains \<open>if\<close>. Then there is exactly one \<open>inferred_latch\<close>
  finding and its line is the line of the closing \<open>end\<close>.
\<close>

theorem inferred_latch_at_closing_end:
  assumes lines: "lines = pre @ [header] @ body1 @ [ifLine] @ body2 @ [closing] @ post"
    and pre: "\<not> list_ex startsCombinationalBlock pre"
    and post: "\<not> list_ex startsCombinationalBlock post"
    and header: "startsCombinationalBlock header"
      "\<not> includesStr (trim header) ''else''" "\<not> includesStr (trim header) ''default''"
    and body: "list_all plainBodyLine (body1 @ [ifLine] @ body2)"
    and ifLine: "includesStr ifLine ''if''" "length body2 < 20"
    and closing: "trim closing = ''end''"
  shows "latchIssues (checkCombinationalLogic lines) =
    [latchIssue (length pre + length body1 + length body2 + 3)]"
proof -
  let ?s0 = "\<lparr>inAlwaysBlock = False, hasElse = False, hasDefault = False, issues = []\<rparr>"
  let ?s1 = "checkCombinationalLines lines 0 pre ?s0"
  let ?s2 = "checkCombinationalLine lines (length pre) header ?s1"
  let ?body = "body1 @ [ifLine] @ body2"
  let ?s3 = "checkCombinationalLines lines (Suc (length pre)) ?body ?s2"
  let ?k = "Suc (length pre) + length ?body"
  let ?s4 = "checkCombinationalLine lines ?k closing ?s3"
  let ?s5 = "checkCombinationalLines lines (Suc ?k) post ?s4"
  have run: "checkCombinationalLines lines 0 lines ?s0 = ?s5"
    by (subst (2) lines) (simp add: checkCombinationalLines_append add.assoc)
  have 1: "\<not> inAlwaysBlock ?s1 \<and> latchIssues (issues ?s1) = []"
    using quiet_lines [of ?s0 pre lines 0] pre by (simp add: latchIssues_def)
  have 2: "inAlwaysBlock ?s2 \<and> \<not> hasElse ?s2 \<and> \<not> hasDefault ?s2 \<and> latchIssues (issues ?s2) = []"
    using header_line [OF header, of lines "length pre" ?s1] 1 by simp
  have 3: "inAlwaysBlock ?s3 \<and> \<not> hasElse ?s3 \<and> \<not> hasDefault ?s3 \<and> latchIssues (issues ?s3) = []"
    using body_lines [of ?s2 ?body lines "Suc (length pre)"] 2 body by simp
  have "take ?k lines = (pre @ [header] @ body1) @ ifLine # body2"
    by (simp add: lines)
  moreover have "?k - 20 \<le> length (pre @ [header] @ body1)"
    using ifLine(2) by simp
  ultimately have "drop (?k - 20) (take ?k lines)
      = drop (?k - 20) (pre @ [header] @ body1) @ ifLine # body2"
    by (simp only: drop_append diff_is_0_eq' drop_0)
  then have "ifLine \<in> set (drop (?k - 20) (take ?k lines))"
    by simp
  then have window: "list_ex (\<lambda>l. includesStr l ''if'') (drop (?k - 20) (take ?k lines))"
    using ifLine(1) by (auto simp: list_ex_iff)
  have 4: "\<not> inAlwaysBlock ?s4 \<and> latchIssues (issues ?s4) = [latchIssue (?k + 1)]"
    using closing_line [of ?s3 closing ?k lines] 3 closing window by simp
  have 5: "latchIssues (issues ?s5) = [latchIssue (?k + 1)]"
    using quiet_lines [of ?s4 post lines "Suc ?k"] 4 post by simp
  have "?k + 1 = length pre + length body1 + length body2 + 3"
    by simp
  with 5 have "latchIssues (issues ?s5) = [latchIssue (length pre + length body1 + length body2 + 3)]"
    by (simp only:)
  then show ?thesis
    by (simp only: checkCombinationalLogic_def run)
qed


theorem inferred_latch_at_closing_end_witness:
  "latchIssues (checkCombinationalLogic
     [''module mux(input sel, input a, output reg out);'',
      ''always @(*) begin'',
      ''  out = 0;'',
      ''  if (sel) out = a;'',
      ''end'',
      ''endmodule'']) = [latchIssue 5]"
proof -
  have pre: "\<not> list_ex startsCombinationalBlock [''module mux(input sel, input a, output reg out);'']"
    unfolding startsCombinationalBlock_def by code_simp
  have post: "\<not> list_ex startsCombinationalBlock [''endmodule'']"
    unfolding startsCombinationalBlock_def by code_simp
  have header: "startsCombinationalBlock ''always @(*) begin''"
    "\<not> includesStr (trim ''always @(*) begin'') ''else''"
    "\<not> includesStr (trim ''always @(*) begin'') ''default''"
    unfolding startsCombinationalBlock_def by code_simp+
  have body: "list_all plainBodyLine ([''  out = 0;''] @ [''  if (sel) out = a;''] @ [])"
    unfolding plainBodyLine_def by code_simp
  have ifLine: "includesStr ''  if (sel) out = a;'' ''if''" "length ([] :: string list) < 20"
    by code_simp+
  have closing: "trim ''end'' = ''end''"
    by code_simp
  show ?thesis
    using inferred_latch_at_closing_end [OF _ pre post header body ifLine closing, OF refl]
    by simp
qed

text \<open>
  The claim as stated fails: with a nested \<open>begin ... end\<close> after the \<open>if\<close> the finding is
  reported at the inner \<open>end\<close> (line 5, the block closes at line 6), and a closing \<open>end\<close>
  followed by a comment gives no finding at all.
\<close>

theorem inferred_latch_line_counterexample:
  "latchIssues (checkCombinationalLogic
     [''always @(*) begin'',
      ''  if (sel) out = a;'',
      ''  if (en) begin'',
      ''    q = b;'',
      ''  end'',
      ''end'']) = [latchIssue 5] \<and>
   latchIssues (checkCombinationalLogic
     [''always @(*) begin'',
      ''  if (sel) out = a;'',
      ''end // mux'']) = []"
  unfolding latchIssues_def latchIssue_def by code_simp

section \<open>Properties of the regular-expression matcher and of parseVerilogCode\<close>

declare exec_loop.simps [simp del]
declare match_all.simps [simp del]

declare rmatch.simps [simp del]

lemma rmatch_Star_elim:
  assumes "st' \<in> set (rmatch (Star r) st)"
  obtains "st' = st"
  | m where "m \<in> set (rmatch r st)" "length (rest m) < length (rest st)"
      "st' \<in> set (rmatch (Star r) m)"
  using assms by (subst (asm) rmatch.simps) (auto split: if_splits)

lemma rmatch_LazyStar_elim:
  assumes "st' \<in> set (rmatch (LazyStar r) st)"
  obtains "st' = st"
  | m where "m \<in> set (rmatch r st)" "length (rest m) < length (rest st)"
      "st' \<in> set (rmatch (LazyStar r) m)"
  using assms by (subst (asm) rmatch.simps) (auto split: if_splits)

lemma rmatch_Seq_elim:
  assumes "st' \<in> set (rmatch (Seq a b) st)"
  obtains m where "m \<in> set (rmatch a st)" "st' \<in> set (rmatch b m)"
  using assms by (subst (asm) rmatch.simps) auto

lemma rmatch_Group_elim:
  assumes "st' \<in> set (rmatch (Group n r) st)"
  obtains m where "m \<in> set (rmatch r st)" "rest st' = rest m" "fst st' = fst m"
  using assms by (subst (asm) rmatch.simps) (auto simp: rest_def)

lemma rmatch_Chr_elim:
  assumes "st' \<in> set (rmatch (Chr c) st)"
  obtains x where "rest st = x # rest st'" "cmatch c x" "fst st' = Some x"
  using assms
  by (subst (asm) rmatch.simps) (cases "rest st"; auto simp: rest_def split: if_splits)

lemma rmatch_rest_le:
  "st' \<in> set (rmatch r st) \<Longrightarrow> length (rest st') \<le> length (rest st)"
proof (induction r st arbitrary: st' rule: rmatch.induct)
  case (1 c st)
  from "1.prems" show ?case by (rule rmatch_Chr_elim) simp
next
  case (2 st)
  then show ?case by (simp add: rmatch.simps)
next
  case (3 a b st)
  from "3.prems" obtain m where m: "m \<in> set (rmatch a st)" "st' \<in> set (rmatch b m)"
    by (rule rmatch_Seq_elim)
  from "3.IH"(1) [OF m(1)] "3.IH"(2) [OF m(1) m(2)] show ?case by linarith
next
  case (4 a b st)
  from "4.prems" have "st' \<in> set (rmatch a st) \<or> st' \<in> set (rmatch b st)"
    by (simp add: rmatch.simps)
  with "4.IH" show ?case by blast
next
  case (5 r st)
  from "5.prems" show ?case
  proof (rule rmatch_Star_elim)
    fix m
    assume m: "m \<in> set (rmatch r st)" "length (rest m) < length (rest st)"
      "st' \<in> set (rmatch (Star r) m)"
    from "5.IH"(2) [OF m] m(2) show ?thesis by linarith
  qed simp
next
  case (6 r st)
  from "6.prems" show ?case
  proof (rule rmatch_LazyStar_elim)
    fix m
    assume m: "m \<in> set (rmatch r st)" "length (rest m) < length (rest st)"
      "st' \<in> set (rmatch (LazyStar r) m)"
    from "6.IH"(2) [OF m] m(2) show ?thesis by linarith
  qed simp
next
  case (7 n r st)
  from "7.prems" obtain m where m: "m \<in> set (rmatch r st)" "rest st' = rest m"
    by (rule rmatch_Group_elim)
  from "7.IH" [OF m(1)] m(2) show ?case by simp
qed (auto simp: rmatch.simps split: if_splits option.splits list.splits)

lemma rmatch_rest_less:
  "\<not> nullable r \<Longrightarrow> st' \<in> set (rmatch r st) \<Longrightarrow> length (rest st') < length (rest st)"
proof (induction r arbitrary: st st')
  case (Chr c)
  from Chr.prems(2) show ?case by (rule rmatch_Chr_elim) simp
next
  case (Seq a b)
  from Seq.prems(2) obtain m where m: "m \<in> set (rmatch a st)" "st' \<in> set (rmatch b m)"
    by (rule rmatch_Seq_elim)
  from Seq.prems(1) consider "\<not> nullable a" | "\<not> nullable b" by auto
  then show ?case
  proof cases
    case 1
    with Seq.IH(1) m(1) have "length (rest m) < length (rest st)" by blast
    with rmatch_rest_le [OF m(2)] show ?thesis by simp
  next
    case 2
    with Seq.IH(2) m(2) have "length (rest st') < length (rest m)" by blast
    with rmatch_rest_le [OF m(1)] show ?thesis by simp
  qed
next
  case (Alt a b)
  from Alt.prems(2) have "st' \<in> set (rmatch a st) \<or> st' \<in> set (rmatch b st)"
    by (simp add: rmatch.simps)
  moreover from Alt.prems(1) have "\<not> nullable a" "\<not> nullable b" by simp_all
  ultimately show ?case using Alt.IH by blast
next
  case (Group n r)
  from Group.prems(2) obtain m where m: "m \<in> set (rmatch r st)" "rest st' = rest m"
    by (rule rmatch_Group_elim)
  from Group.prems(1) have "\<not> nullable r" by simp
  from Group.IH [OF this m(1)] m(2) show ?case by simp
qed simp_all

lemma exec_at_rest:
  assumes "exec_at r i p s = Some (idx, tx, st)"
  shows "length (rest st) \<le> length s \<and>
         (\<not> nullable r \<longrightarrow> tx \<noteq> [] \<and> length (rest st) < length s)"
  using assms
proof (induction r i p s rule: exec_at.induct)
  case (1 r i p)
  then obtain ms where "rmatch r (p, [], []) = st # ms"
    by (auto split: list.splits)
  then have mem: "st \<in> set (rmatch r (p, [], []))" by simp
  have "rest (p, [], []) = []" by (simp add: rest_def)
  with rmatch_rest_le [OF mem] rmatch_rest_less [OF _ mem] show ?case
    by auto
next
  case (2 r i p x xs)
  show ?case
  proof (cases "rmatch r (p, x # xs, [])")
    case Nil
    with "2.prems" have "exec_at r (Suc i) (Some x) xs = Some (idx, tx, st)" by simp
    from "2.IH" [OF Nil this] show ?thesis by auto
  next
    case (Cons m ms)
    with "2.prems" have eq: "m = st" "tx = take (length (x # xs) - length (rest st)) (x # xs)"
      by auto
    from Cons eq have mem: "st \<in> set (rmatch r (p, x # xs, []))" by simp
    have r0: "rest (p, x # xs, []) = x # xs" by (simp add: rest_def)
    from rmatch_rest_le [OF mem] have le: "length (rest st) \<le> length (x # xs)"
      by (simp only: r0)
    have "tx \<noteq> [] \<and> length (rest st) < length (x # xs)" if "\<not> nullable r"
    proof -
      from rmatch_rest_less [OF that mem] have "length (rest st) < length (x # xs)"
        by (simp only: r0)
      then show ?thesis by (simp add: eq(2))
    qed
    with le show ?thesis by blast
  qed
qed

lemma exec_loop_total:
  "\<not> nullable r \<Longrightarrow> \<exists>ms. exec_loop r i p s = Some ms"
proof (induction r i p s rule: exec_loop.induct)
  case (1 r i p s)
  show ?case
  proof (cases "exec_at r i p s")
    case None
    then show ?thesis by (subst exec_loop.simps) simp
  next
    case (Some found)
    obtain idx tx st where found: "found = (idx, tx, st)" by (cases found) auto
    from exec_at_rest [OF Some [unfolded found]] 1(2)
    have g: "tx \<noteq> [] \<and> length (rest st) < length s" by simp
    from 1(1) [OF Some found [symmetric] refl g 1(2)]
    obtain ms where "exec_loop r (idx + length tx) (fst st) (rest st) = Some ms" by auto
    with Some found g show ?thesis by (subst exec_loop.simps) simp
  qed
qed

lemma match_all_step:
  assumes "\<not> nullable r"
  shows "match_all r i p s =
    (case exec_at r i p s of
       None \<Rightarrow> []
     | Some (idx, tx, st) \<Rightarrow>
         \<lparr>m_index = idx, m_text = tx, m_groups = snd (snd st)\<rparr>
           # match_all r (idx + length tx) (fst st) (rest st))"
proof (cases "exec_at r i p s")
  case None
  then show ?thesis by (subst match_all.simps) simp
next
  case (Some found)
  obtain idx tx st where found: "found = (idx, tx, st)" by (cases found) auto
  from exec_at_rest [OF Some [unfolded found]] assms
  have "tx \<noteq> [] \<and> length (rest st) < length s" by simp
  with Some found show ?thesis by (subst match_all.simps) simp
qed

lemma match_all_skip:
  assumes "\<not> nullable r" and "rmatch r (p, x # xs, []) = []"
  shows "match_all r i p (x # xs) = match_all r (Suc i) (Some x) xs"
  using assms(2) by (simp add: match_all_step [OF assms(1)])

lemma rmatch_Lit_Cons:
  "rmatch (Chr (Lit c)) (p, x # xs, caps) = (if x = c then [(Some x, xs, caps)] else [])"
  by (simp add: rmatch.simps rest_def)

lemma rmatch_Chr_Nil: "rmatch (Chr c) (p, [], caps) = []"
  by (simp add: rmatch.simps rest_def)

lemma count_Lit_matches:
  "length (match_all (Chr (Lit c)) i p s) = count_list s c"
proof (induction s arbitrary: i p)
  case Nil
  show ?case by (subst match_all.simps) (simp add: rmatch_Chr_Nil)
next
  case (Cons x xs)
  show ?case
  proof (cases "x = c")
    case True
    have "exec_at (Chr (Lit c)) i p (x # xs) = Some (i, [x], (Some x, xs, []))"
      using True by (simp add: rmatch_Lit_Cons rest_def)
    then have "match_all (Chr (Lit c)) i p (x # xs) =
        \<lparr>m_index = i, m_text = [x], m_groups = []\<rparr> # match_all (Chr (Lit c)) (i + 1) (Some x) xs"
      by (simp add: match_all_step rest_def)
    with Cons.IH True show ?thesis by simp
  next
    case False
    then have "rmatch (Chr (Lit c)) (p, x # xs, []) = []" by (simp add: rmatch_Lit_Cons)
    from match_all_skip [OF _ this] Cons.IH False show ?thesis by simp
  qed
qed

lemma countMatches_Lit: "countMatches (Chr (Lit c)) s = count_list s c"
  by (simp add: countMatches_def count_Lit_matches)

lemma split_pieces_nonempty: "split c s \<noteq> []"
  by (induction c s rule: split.induct) (auto split: list.splits)

lemma count_list_split:
  "c \<noteq> sep \<Longrightarrow> (\<Sum>l\<leftarrow>split sep s. int (count_list l c)) = int (count_list s c)"
proof (induction sep s rule: split.induct)
  case (1 c)
  then show ?case by simp
next
  case (2 sep x xs)
  show ?case
  proof (cases "x = sep")
    case True
    with 2 show ?thesis by simp
  next
    case False
    obtain piece pieces where sp: "split sep xs = piece # pieces"
      using split_pieces_nonempty [of sep xs] by (cases "split sep xs") auto
    with 2 False show ?thesis by auto
  qed
qed

text \<open>The counter of parentheses after the loop over the lines.\<close>

lemma parenCount_line:
  "parenCount (checkSyntaxLine index line nextLine st) =
     parenCount st + int (count_list line CHR ''('') - int (count_list line CHR '')'')"
  by (simp add: checkSyntaxLine_def Let_def countMatches_Lit split: option.split)

lemma parenCount_lines:
  "parenCount (checkSyntaxLines index ls st) =
     parenCount st + (\<Sum>l\<leftarrow>ls. int (count_list l CHR ''('') - int (count_list l CHR '')''))"
  by (induction index ls st rule: checkSyntaxLines.induct) (simp_all add: parenCount_line)

lemma parenCount_checkSyntax:
  "parenCount (checkSyntaxLines 0 (split newline code)
      \<lparr>parenCount = 0, bracketCount = 0, beginCount = 0, errors = []\<rparr>) = parenImbalance code"
proof -
  have "(\<Sum>l\<leftarrow>split newline code. int (count_list l CHR ''('') - int (count_list l CHR '')''))
      = (\<Sum>l\<leftarrow>split newline code. int (count_list l CHR ''(''))
        - (\<Sum>l\<leftarrow>split newline code. int (count_list l CHR '')''))"
    by (simp add: sum_list_subtractf)
  also have "\<dots> = parenImbalance code"
    by (simp add: count_list_split newline_def parenImbalance_def)
  finally show ?thesis by (simp add: parenCount_lines)
qed

lemma checkSyntax_unbalanced_parentheses:
  assumes "parenImbalance code \<noteq> 0"
  shows "unbalancedParentheses (parenImbalance code) \<in> set (checkSyntax code)"
  using assms
  by (simp add: checkSyntax_def Let_def parenCount_checkSyntax unbalancedParentheses_def
      unbalancedMessage_def)

lemma scanning_regexes_not_nullable:
  "\<not> nullable moduleRegex" "\<not> nullable portRegex" "\<not> nullable signalRegex"
  "\<not> nullable instanceRegex" "\<not> nullable namedConnRegex" "\<not> nullable alwaysRegex"
  "\<not> nullable readRegex" "\<not> nullable writeRegex" "\<not> nullable assignRegex"
  "\<not> nullable paramRegex"
  by code_simp+

lemma those_map_total:
  assumes "\<And>x. \<exists>y. f x = Some y"
  shows "\<exists>ys. those (map f xs) = Some ys"
proof (induction xs)
  case Nil
  show ?case by simp
next
  case (Cons x xs)
  from assms obtain y where "f x = Some y" by blast
  with Cons show ?case by auto
qed

lemma extractModules_total: "\<exists>ms. extractModules code = Some ms"
  using exec_loop_total [OF scanning_regexes_not_nullable(1), of 0 None code]
  by (auto simp: extractModules_def)

lemma extractPorts_total: "\<exists>ps. extractPorts code = Some ps"
  using exec_loop_total [OF scanning_regexes_not_nullable(2), of 0 None code]
  by (auto simp: extractPorts_def)

lemma extractSignals_total: "\<exists>ss. extractSignals code = Some ss"
  using exec_loop_total [OF scanning_regexes_not_nullable(3), of 0 None code]
  by (auto simp: extractSignals_def)

lemma parseConnections_total: "\<exists>cs. parseConnections connections = Some cs"
  using exec_loop_total [OF scanning_regexes_not_nullable(5), of 0 None connections]
  by (auto simp: parseConnections_def)

lemma extractInstances_total: "\<exists>is. extractInstances code = Some is"
proof -
  obtain ms where ms: "exec_loop instanceRegex 0 None code = Some ms"
    using exec_loop_total [OF scanning_regexes_not_nullable(4)] by blast
  have "\<exists>y. map_option (\<lambda>conns.
              \<lparr>inst_module_name = grpStr m 1, inst_instance_name = grpStr m 2,
               inst_connections = conns, inst_line = findLineNumber code (m_index m)\<rparr>)
            (parseConnections (grpStr m 3)) = Some y" for m
    using parseConnections_total [of "grpStr m 3"] by auto
  from those_map_total [of _ "filter (\<lambda>m. grpStr m 1 \<notin> set keywordList) ms", OF this] ms
  show ?thesis by (simp add: extractInstances_def)
qed

lemma extractSignalsFromBlock_total: "\<exists>names. extractSignalsFromBlock block operation = Some names"
  using exec_loop_total [OF scanning_regexes_not_nullable(7), of 0 None block]
    exec_loop_total [OF scanning_regexes_not_nullable(8), of 0 None block]
  by (auto simp: extractSignalsFromBlock_def)

lemma extractAlwaysBlocks_total: "\<exists>bs. extractAlwaysBlocks code = Some bs"
proof -
  obtain ms where ms: "exec_loop alwaysRegex 0 None code = Some ms"
    using exec_loop_total [OF scanning_regexes_not_nullable(6)] by blast
  have "\<exists>y. (let sensitivity = grpStr m 1; body = grpStr m 2 in
           Option.bind (extractSignalsFromBlock body ''read'') (\<lambda>signals_read.
           Option.bind (extractSignalsFromBlock body ''write'') (\<lambda>signals_written.
             Some \<lparr>ab_sensitivity_list = trim sensitivity,
                   ab_body = trim body,
                   ab_type = classifyAlwaysBlock sensitivity body,
                   ab_line = findLineNumber code (m_index m),
                   ab_signals_read = signals_read,
                   ab_signals_written = signals_written\<rparr>))) = Some y" for m
  proof -
    obtain rd where rd: "extractSignalsFromBlock (grpStr m 2) ''read'' = Some rd"
      using extractSignalsFromBlock_total by blast
    obtain wr where wr: "extractSignalsFromBlock (grpStr m 2) ''write'' = Some wr"
      using extractSignalsFromBlock_total by blast
    show ?thesis by (simp add: Let_def rd wr)
  qed
  from those_map_total [of _ ms, OF this] ms
  show ?thesis by (simp add: extractAlwaysBlocks_def)
qed

lemma extractAssignments_total: "\<exists>as. extractAssignments code = Some as"
  using exec_loop_total [OF scanning_regexes_not_nullable(9), of 0 None code]
  by (auto simp: extractAssignments_def)

lemma extractParameters_total: "\<exists>ps. extractParameters code = Some ps"
  using exec_loop_total [OF scanning_regexes_not_nullable(10), of 0 None code]
  by (auto simp: extractParameters_def)

lemma calculateComplexity_total: "\<exists>cx. calculateComplexity code = Some cx"
proof -
  obtain ms where ms: "extractModules code = Some ms" using extractModules_total by blast
  obtain bs where bs: "extractAlwaysBlocks code = Some bs" using extractAlwaysBlocks_total by blast
  obtain as where as: "extractAssignments code = Some as" using extractAssignments_total by blast
  show ?thesis by (simp add: calculateComplexity_def ms bs as Let_def)
qed



section \<open>Properties of calculateResources and calculateTiming\<close>

lemma multiplier_patterns:
  assumes "findPattern ''multiplier'' arch = Own pattern"
  shows "(arch = ''array'' \<and> lut_usage pattern = on1 (\<lambda>width. Some (width * width * 0.8))
            \<and> ff_usage pattern = on1 (\<lambda>width. Some (width * 2))) \<or>
         (arch = ''booth'' \<and> lut_usage pattern = on1 (\<lambda>width. Some (width * width * 0.6))
            \<and> ff_usage pattern = on1 (\<lambda>width. Some (width * 1.5))) \<or>
         (arch = ''wallace_tree'' \<and> lut_usage pattern = on1 (\<lambda>width. Some (width * width * 1.1))
            \<and> ff_usage pattern = on1 (\<lambda>width. Some (width * 2.5)))"
  using assms
  by (auto simp: findPattern_def js_get_def designPatterns_def split: if_splits)

lemma multiplier_usage:
  assumes "findPattern ''multiplier'' arch = Own pattern"
  shows "\<exists>k f. 3 / 5 \<le> k \<and> (\<forall>x. lut_usage pattern (Some x) None = Some (x * x * k)) \<and>
           (\<forall>x. ff_usage pattern (Some x) None = Some (x * f))"
proof -
  from multiplier_patterns [OF assms]
  consider (array) "lut_usage pattern = on1 (\<lambda>width. Some (width * width * 0.8))"
      "ff_usage pattern = on1 (\<lambda>width. Some (width * 2))"
    | (booth) "lut_usage pattern = on1 (\<lambda>width. Some (width * width * 0.6))"
      "ff_usage pattern = on1 (\<lambda>width. Some (width * 1.5))"
    | (wallace_tree) "lut_usage pattern = on1 (\<lambda>width. Some (width * width * 1.1))"
      "ff_usage pattern = on1 (\<lambda>width. Some (width * 2.5))"
    by blast
  then show ?thesis
  proof cases
    case array
    then show ?thesis
      by (intro exI [of _ "0.8"] exI [of _ 2]) (simp add: on1_def)
  next
    case booth
    then show ?thesis
      by (intro exI [of _ "0.6"] exI [of _ "1.5"]) (simp add: on1_def)
  next
    case wallace_tree
    then show ?thesis
      by (intro exI [of _ "1.1"] exI [of _ "2.5"]) (simp add: on1_def)
  qed
qed

lemma ceiling_reduced_less:
  fixes L :: real
  assumes "2 \<le> L"
  shows "\<lceil>L * 0.3\<rceil> < \<lceil>L\<rceil>"
proof -
  have "real_of_int \<lceil>L * 0.3\<rceil> < L * 0.3 + 1" by linarith
  also have "\<dots> \<le> L" using assms by simp
  also have "\<dots> \<le> real_of_int \<lceil>L\<rceil>" by linarith
  finally show ?thesis by simp
qed


text \<open>
  With an architecture that the catalog does not register for multipliers (the default
  \<open>ripple_carry\<close> is one) the generic estimate applies and no DSP block is counted.
\<close>

lemma multiplier_generic_fallback:
  assumes "cfg_component cfg = Some ''multiplier''"
    and "findPattern ''multiplier'' (dflt ''ripple_carry'' (cfg_architecture cfg)) = Missing"
  shows "\<exists>r. calculateResources cfg = Returned r \<and> res_dsps r = 0 \<and>
           res_luts r = dflt 8 (cfg_width cfg) * 2 * dflt 1 (cfg_instances cfg)"
proof -
  have "real_of_int (dflt 8 (cfg_width cfg)) * 2 * real_of_int (dflt 1 (cfg_instances cfg))
      = real_of_int (dflt 8 (cfg_width cfg) * 2 * dflt 1 (cfg_instances cfg))"
    by simp
  then show ?thesis
    using assms
    by (simp add: calculateResources_def resource_usage_def Let_def dflt_def del: of_int_mult)
qed



lemma delay_formula_defined:
  assumes "findPattern component architecture = Own pattern" and "0 < x"
  shows "delay_formula pattern (Some x) y \<noteq> None"
  using assms
  apply (auto simp: findPattern_def js_get_def designPatterns_def on1_def js_log2_def js_sqrt_def
      split: if_splits)
    apply (rule exI [of _ "x / 8"], simp)
   apply (rule exI [of _ "x / 5"], simp)
  apply (rule exI [of _ "5 / 2"], simp)
  done




end
